theory Spec2Isabelle
  imports Main "HOL-Library.Sublist" "HOL-Library.AList"
begin

section \<open>The RAG pipeline diagnostic script\<close>

text \<open>
  A shallow embedding of \<^verbatim>\<open>scripts/diagnose_rag_pipelines.py\<close>. The script owns no data:
  every check asks something of the outside (the process environment, the importable
  packages, the embedding and LLM services, the pipeline registry, the knowledge-base
  directory, the search tool) and prints what it found. The outside is a record
  \<open>world\<close> that fixes the outcome of each external call of one run; a check is a function
  of the world that returns the events it caused together with its return value or the
  exception that left it.
\<close>

subsection \<open>Exceptions\<close>

text \<open>
  The handlers of the script distinguish three kinds of exception: \<^verbatim>\<open>except ImportError\<close>
  catches import errors only, \<^verbatim>\<open>except Exception\<close> catches every exception derived from
  \<^verbatim>\<open>Exception\<close> (import errors among them), and nothing catches what derives from
  \<^verbatim>\<open>BaseException\<close> alone (a keyboard interrupt, a cancelled task). Each carries the text
  that \<^verbatim>\<open>str(e)\<close> gives.
\<close>

datatype exn = ImportError string | OtherException string | NonException string

fun exn_str :: "exn \<Rightarrow> string" where
  "exn_str (ImportError m) = m"
| "exn_str (OtherException m) = m"
| "exn_str (NonException m) = m"

fun is_ImportError :: "exn \<Rightarrow> bool" where
  "is_ImportError (ImportError m) = True"
| "is_ImportError (OtherException m) = False"
| "is_ImportError (NonException m) = False"

fun is_Exception :: "exn \<Rightarrow> bool" where
  "is_Exception (ImportError m) = True"
| "is_Exception (OtherException m) = True"
| "is_Exception (NonException m) = False"

subsection \<open>Events of a run\<close>

text \<open>
  What a run does that can be observed: the lines it prints and the search calls it
  issues. A line printed through one of the helpers \<^verbatim>\<open>print_header\<close>, \<^verbatim>\<open>print_success\<close>,
  \<^verbatim>\<open>print_warning\<close>, \<^verbatim>\<open>print_error\<close>, \<^verbatim>\<open>print_info\<close> is the helper's constructor applied to
  the helper's argument (the colour and the leading symbol that the helper adds are what
  the constructor stands for); a bare \<^verbatim>\<open>print\<close> is \<open>Print\<close>. \<open>Search q kb mode provider\<close> is a
  call \<^verbatim>\<open>rag_search(query=q, kb_name=kb, mode=mode, provider=provider)\<close>.
\<close>

datatype event =
    Header string
  | Success string
  | Warning string
  | Error string
  | Info string
  | Print string
  | Search string string string string

fun is_Header :: "event \<Rightarrow> bool" where
  "is_Header (Header t) = True"
| "is_Header e = False"

fun is_Search :: "event \<Rightarrow> bool" where
  "is_Search (Search q kb m p) = True"
| "is_Search e = False"

fun is_Error :: "event \<Rightarrow> bool" where
  "is_Error (Error t) = True"
| "is_Error e = False"

text \<open>
  A computation returns the events it caused, in order, and either the exception that
  left it (\<open>Inl\<close>) or its value (\<open>Inr\<close>).
\<close>

type_synonym 'a run = "event list \<times> (exn + 'a)"

definition returns :: "'a \<Rightarrow> 'a run" where
  "returns x = ([], Inr x)"

definition emit :: "event list \<Rightarrow> unit run" where
  "emit es = (es, Inr ())"

definition call :: "exn + 'a \<Rightarrow> 'a run" where
  \<comment> \<open>an external call with its outcome in this run\<close>
  "call r = ([], r)"

definition import_from :: "exn option \<Rightarrow> unit run" where
  \<comment> \<open>an import statement: \<open>None\<close> when it succeeds\<close>
  "import_from r = (case r of None \<Rightarrow> ([], Inr ()) | Some e \<Rightarrow> ([], Inl e))"

definition then_run :: "'a run \<Rightarrow> ('a \<Rightarrow> 'b run) \<Rightarrow> 'b run" where
  \<comment> \<open>sequencing: an exception of the first part skips the second\<close>
  "then_run m f =
     (case m of
        (out, Inl e) \<Rightarrow> (out, Inl e)
      | (out, Inr x) \<Rightarrow> (case f x of (out', r) \<Rightarrow> (out @ out', r)))"

definition try_except :: "'a run \<Rightarrow> (exn \<Rightarrow> bool) \<Rightarrow> (exn \<Rightarrow> 'a run) \<Rightarrow> 'a run" where
  \<comment> \<open>\<^verbatim>\<open>try: body except C as e: handler\<close>, with \<open>catches\<close> the exceptions of class C\<close>
  "try_except body catches handler =
     (case body of
        (out, Inl e) \<Rightarrow>
          (if catches e then (case handler e of (out', r) \<Rightarrow> (out @ out', r))
           else (out, Inl e))
      | (out, Inr x) \<Rightarrow> (out, Inr x))"

subsection \<open>Python values and texts\<close>

text \<open>
  A Python \<^verbatim>\<open>str\<close> is a \<open>string\<close>, one \<open>char\<close> for each character of it, so that
  \<open>length\<close>, \<open>take\<close> and \<open>drop\<close> are \<^verbatim>\<open>len\<close> and slicing. The fixed texts of the script
  that are not ASCII are spelled as the bytes of their UTF-8 form; nothing in the script
  measures or slices them.
\<close>

datatype pyval =
    PBool bool
  | PStr string
  | PList "string list"
  | PDict "(string \<times> string) list"

definition digit_char :: "nat \<Rightarrow> char" where
  \<comment> \<open>the character of a decimal digit\<close>
  "digit_char n = ''0123456789'' ! n"

function str_nat :: "nat \<Rightarrow> string" where
  \<comment> \<open>the decimal text of a non-negative integer, as an f-string prints it\<close>
  "str_nat n = (if n < 10 then [digit_char n] else str_nat (n div 10) @ [digit_char (n mod 10)])"
  by pat_completeness auto
termination
  by (relation "measure id") auto

declare str_nat.simps [simp del]

definition masked :: "string \<Rightarrow> string" where
  \<comment> \<open>\<^verbatim>\<open>value[:8] + "..." + value[-4:] if len(value) > 12 else "***"\<close>\<close>
  "masked v = (if length v > 12 then take 8 v @ ''...'' @ drop (length v - 4) v else ''***'')"

definition txt_raganything_header :: "string" where
  \<comment> \<open>header of the RAG-Anything check: RAG-Anything dependency check\<close>
  "txt_raganything_header =
     ''RAG-Anything '' @ [CHR 0xE4, CHR 0xBE, CHR 0x9D, CHR 0xE8, CHR 0xB5, CHR 0x96, CHR 0xE6,
     CHR 0xA3, CHR 0x80, CHR 0xE6, CHR 0x9F, CHR 0xA5]"

definition txt_path_exists :: "string \<Rightarrow> string" where
  \<comment> \<open>RAG-Anything path exists: {path}\<close>
  "txt_path_exists p =
     ''RAG-Anything '' @ [CHR 0xE8, CHR 0xB7, CHR 0xAF, CHR 0xE5, CHR 0xBE, CHR 0x84, CHR 0xE5,
     CHR 0xAD, CHR 0x98, CHR 0xE5, CHR 0x9C, CHR 0xA8] @ '': '' @ p"

definition txt_path_missing :: "string \<Rightarrow> string" where
  \<comment> \<open>RAG-Anything path does not exist: {path}\<close>
  "txt_path_missing p =
     ''RAG-Anything '' @ [CHR 0xE8, CHR 0xB7, CHR 0xAF, CHR 0xE5, CHR 0xBE, CHR 0x84, CHR 0xE4,
     CHR 0xB8, CHR 0x8D, CHR 0xE5, CHR 0xAD, CHR 0x98, CHR 0xE5, CHR 0x9C, CHR 0xA8] @ '': '' @
     p"

definition txt_path_affects :: "string" where
  \<comment> \<open>this affects the raganything, lightrag, academic pipeline\<close>
  "txt_path_affects =
     [CHR 0xE8, CHR 0xBF, CHR 0x99, CHR 0xE4, CHR 0xBC, CHR 0x9A, CHR 0xE5, CHR 0xBD, CHR 0xB1,
     CHR 0xE5, CHR 0x93, CHR 0x8D] @ '' raganything, lightrag, academic pipeline''"

definition txt_raganything_importable :: "string" where
  \<comment> \<open>the raganything library can be imported\<close>
  "txt_raganything_importable =
     [CHR 0xE5, CHR 0x8F, CHR 0xAF, CHR 0xE4, CHR 0xBB, CHR 0xA5, CHR 0xE5, CHR 0xAF, CHR 0xBC,
     CHR 0xE5, CHR 0x85, CHR 0xA5] @ '' raganything '' @ [CHR 0xE5, CHR 0xBA, CHR 0x93]"

definition txt_raganything_not_importable :: "string \<Rightarrow> string" where
  \<comment> \<open>cannot import raganything: {e}\<close>
  "txt_raganything_not_importable e =
     [CHR 0xE6, CHR 0x97, CHR 0xA0, CHR 0xE6, CHR 0xB3, CHR 0x95, CHR 0xE5, CHR 0xAF, CHR 0xBC,
     CHR 0xE5, CHR 0x85, CHR 0xA5] @ '' raganything: '' @ e"

definition txt_lightrag_header :: "string" where
  \<comment> \<open>header of the LightRAG check: LightRAG dependency check\<close>
  "txt_lightrag_header =
     ''LightRAG '' @ [CHR 0xE4, CHR 0xBE, CHR 0x9D, CHR 0xE8, CHR 0xB5, CHR 0x96, CHR 0xE6,
     CHR 0xA3, CHR 0x80, CHR 0xE6, CHR 0x9F, CHR 0xA5]"

definition txt_lightrag_importable :: "string" where
  \<comment> \<open>the lightrag library can be imported\<close>
  "txt_lightrag_importable =
     [CHR 0xE5, CHR 0x8F, CHR 0xAF, CHR 0xE4, CHR 0xBB, CHR 0xA5, CHR 0xE5, CHR 0xAF, CHR 0xBC,
     CHR 0xE5, CHR 0x85, CHR 0xA5] @ '' lightrag '' @ [CHR 0xE5, CHR 0xBA, CHR 0x93]"

definition txt_lightrag_not_importable :: "string \<Rightarrow> string" where
  \<comment> \<open>cannot import lightrag: {e}\<close>
  "txt_lightrag_not_importable e =
     [CHR 0xE6, CHR 0x97, CHR 0xA0, CHR 0xE6, CHR 0xB3, CHR 0x95, CHR 0xE5, CHR 0xAF, CHR 0xBC,
     CHR 0xE5, CHR 0x85, CHR 0xA5] @ '' lightrag: '' @ e"

definition txt_embedding_header :: "string" where
  \<comment> \<open>header of the embedding check: Embedding service check\<close>
  "txt_embedding_header =
     ''Embedding '' @ [CHR 0xE6, CHR 0x9C, CHR 0x8D, CHR 0xE5, CHR 0x8A, CHR 0xA1, CHR 0xE6,
     CHR 0xA3, CHR 0x80, CHR 0xE6, CHR 0x9F, CHR 0xA5]"

definition txt_embedding_available :: "string" where
  \<comment> \<open>Embedding client available\<close>
  "txt_embedding_available =
     ''Embedding '' @ [CHR 0xE5, CHR 0xAE, CHR 0xA2, CHR 0xE6, CHR 0x88, CHR 0xB7, CHR 0xE7,
     CHR 0xAB, CHR 0xAF, CHR 0xE5, CHR 0x8F, CHR 0xAF, CHR 0xE7, CHR 0x94, CHR 0xA8]"

definition txt_embedding_error :: "string \<Rightarrow> string" where
  \<comment> \<open>Embedding service error: {e}\<close>
  "txt_embedding_error e =
     ''Embedding '' @ [CHR 0xE6, CHR 0x9C, CHR 0x8D, CHR 0xE5, CHR 0x8A, CHR 0xA1, CHR 0xE9,
     CHR 0x94, CHR 0x99, CHR 0xE8, CHR 0xAF, CHR 0xAF] @ '': '' @ e"

definition txt_llm_header :: "string" where
  \<comment> \<open>header of the LLM check: LLM service check\<close>
  "txt_llm_header =
     ''LLM '' @ [CHR 0xE6, CHR 0x9C, CHR 0x8D, CHR 0xE5, CHR 0x8A, CHR 0xA1, CHR 0xE6,
     CHR 0xA3, CHR 0x80, CHR 0xE6, CHR 0x9F, CHR 0xA5]"

definition txt_llm_available :: "string" where
  \<comment> \<open>LLM configuration available\<close>
  "txt_llm_available =
     ''LLM '' @ [CHR 0xE9, CHR 0x85, CHR 0x8D, CHR 0xE7, CHR 0xBD, CHR 0xAE, CHR 0xE5,
     CHR 0x8F, CHR 0xAF, CHR 0xE7, CHR 0x94, CHR 0xA8]"

definition txt_llm_error :: "string \<Rightarrow> string" where
  \<comment> \<open>LLM service error: {e}\<close>
  "txt_llm_error e =
     ''LLM '' @ [CHR 0xE6, CHR 0x9C, CHR 0x8D, CHR 0xE5, CHR 0x8A, CHR 0xA1, CHR 0xE9,
     CHR 0x94, CHR 0x99, CHR 0xE8, CHR 0xAF, CHR 0xAF] @ '': '' @ e"

definition txt_pipelines_header :: "string" where
  \<comment> \<open>header of the pipeline check: Pipeline availability check\<close>
  "txt_pipelines_header =
     ''Pipeline '' @ [CHR 0xE5, CHR 0x8F, CHR 0xAF, CHR 0xE7, CHR 0x94, CHR 0xA8, CHR 0xE6,
     CHR 0x80, CHR 0xA7, CHR 0xE6, CHR 0xA3, CHR 0x80, CHR 0xE6, CHR 0x9F, CHR 0xA5]"

definition txt_registered :: "string \<Rightarrow> string" where
  \<comment> \<open>{n} pipelines registered, with the newline the source appends\<close>
  "txt_registered n =
     [CHR 0xE5, CHR 0xB7, CHR 0xB2, CHR 0xE6, CHR 0xB3, CHR 0xA8, CHR 0xE5, CHR 0x86, CHR 0x8C]
     @ '' '' @ n @ '' '' @ [CHR 0xE4, CHR 0xB8, CHR 0xAA] @ '' pipeline'' @ [CHR 0x0A]"

definition txt_pipeline_title :: "string \<Rightarrow> string \<Rightarrow> string" where
  \<comment> \<open>the bold [id] name line of one pipeline\<close>
  "txt_pipeline_title pid name =
     [CHR 0x0A, CHR 0x1B] @ ''[1m  ['' @ pid @ '']'' @ [CHR 0x1B] @ ''[0m '' @ name"

definition txt_description :: "string \<Rightarrow> string" where
  \<comment> \<open>description: {d}\<close>
  "txt_description d =
     ''    '' @ [CHR 0xE6, CHR 0x8F, CHR 0x8F, CHR 0xE8, CHR 0xBF, CHR 0xB0] @ '': '' @ d"

definition txt_instance_created :: "string" where
  \<comment> \<open>Pipeline instance created\<close>
  "txt_instance_created =
     ''Pipeline '' @ [CHR 0xE5, CHR 0xAE, CHR 0x9E, CHR 0xE4, CHR 0xBE, CHR 0x8B, CHR 0xE5,
     CHR 0x88, CHR 0x9B, CHR 0xE5, CHR 0xBB, CHR 0xBA, CHR 0xE6, CHR 0x88, CHR 0x90, CHR 0xE5,
     CHR 0x8A, CHR 0x9F]"

definition txt_creation_failed :: "string \<Rightarrow> string" where
  \<comment> \<open>Pipeline creation failed: {e}\<close>
  "txt_creation_failed e =
     ''Pipeline '' @ [CHR 0xE5, CHR 0x88, CHR 0x9B, CHR 0xE5, CHR 0xBB, CHR 0xBA, CHR 0xE5,
     CHR 0xA4, CHR 0xB1, CHR 0xE8, CHR 0xB4, CHR 0xA5] @ '': '' @ e"

definition txt_testing_search :: "string \<Rightarrow> string" where
  \<comment> \<open>testing the search of {pipeline_id} ...\<close>
  "txt_testing_search pid =
     [CHR 0x0A] @ ''  '' @ [CHR 0xE6, CHR 0xB5, CHR 0x8B, CHR 0xE8, CHR 0xAF, CHR 0x95] @ '' ''
     @ pid @ '' '' @ [CHR 0xE6, CHR 0x90, CHR 0x9C, CHR 0xE7, CHR 0xB4, CHR 0xA2, CHR 0xE5,
     CHR 0x8A, CHR 0x9F, CHR 0xE8, CHR 0x83, CHR 0xBD] @ ''...''"

definition txt_using_kb :: "string \<Rightarrow> string" where
  \<comment> \<open>using the existing knowledge base: {kb_name}\<close>
  "txt_using_kb kb =
     [CHR 0xE4, CHR 0xBD, CHR 0xBF, CHR 0xE7, CHR 0x94, CHR 0xA8, CHR 0xE5, CHR 0xB7, CHR 0xB2,
     CHR 0xE6, CHR 0x9C, CHR 0x89, CHR 0xE7, CHR 0x9F, CHR 0xA5, CHR 0xE8, CHR 0xAF, CHR 0x86,
     CHR 0xE5, CHR 0xBA, CHR 0x93] @ '': '' @ kb"

definition txt_no_kb_skip :: "string" where
  \<comment> \<open>no usable knowledge base found, skipping the search test\<close>
  "txt_no_kb_skip =
     [CHR 0xE6, CHR 0xB2, CHR 0xA1, CHR 0xE6, CHR 0x9C, CHR 0x89, CHR 0xE6, CHR 0x89, CHR 0xBE,
     CHR 0xE5, CHR 0x88, CHR 0xB0, CHR 0xE5, CHR 0x8F, CHR 0xAF, CHR 0xE7, CHR 0x94, CHR 0xA8,
     CHR 0xE7, CHR 0x9A, CHR 0x84, CHR 0xE7, CHR 0x9F, CHR 0xA5, CHR 0xE8, CHR 0xAF, CHR 0x86,
     CHR 0xE5, CHR 0xBA, CHR 0x93, CHR 0xEF, CHR 0xBC, CHR 0x8C, CHR 0xE8, CHR 0xB7, CHR 0xB3,
     CHR 0xE8, CHR 0xBF, CHR 0x87, CHR 0xE6, CHR 0x90, CHR 0x9C, CHR 0xE7, CHR 0xB4, CHR 0xA2,
     CHR 0xE6, CHR 0xB5, CHR 0x8B, CHR 0xE8, CHR 0xAF, CHR 0x95]"

definition txt_search_ok :: "string \<Rightarrow> string" where
  \<comment> \<open>search succeeded, {n} characters returned\<close>
  "txt_search_ok n =
     [CHR 0xE6, CHR 0x90, CHR 0x9C, CHR 0xE7, CHR 0xB4, CHR 0xA2, CHR 0xE6, CHR 0x88, CHR 0x90,
     CHR 0xE5, CHR 0x8A, CHR 0x9F, CHR 0xEF, CHR 0xBC, CHR 0x8C, CHR 0xE8, CHR 0xBF, CHR 0x94,
     CHR 0xE5, CHR 0x9B, CHR 0x9E] @ '' '' @ n @ '' '' @ [CHR 0xE5, CHR 0xAD, CHR 0x97,
     CHR 0xE7, CHR 0xAC, CHR 0xA6]"

definition txt_search_empty :: "string" where
  \<comment> \<open>the search returned an empty result\<close>
  "txt_search_empty =
     [CHR 0xE6, CHR 0x90, CHR 0x9C, CHR 0xE7, CHR 0xB4, CHR 0xA2, CHR 0xE8, CHR 0xBF, CHR 0x94,
     CHR 0xE5, CHR 0x9B, CHR 0x9E, CHR 0xE7, CHR 0xA9, CHR 0xBA, CHR 0xE7, CHR 0xBB, CHR 0x93,
     CHR 0xE6, CHR 0x9E, CHR 0x9C]"

definition txt_search_failed :: "string \<Rightarrow> string" where
  \<comment> \<open>search failed: {e}\<close>
  "txt_search_failed e =
     [CHR 0xE6, CHR 0x90, CHR 0x9C, CHR 0xE7, CHR 0xB4, CHR 0xA2, CHR 0xE5, CHR 0xA4, CHR 0xB1,
     CHR 0xE8, CHR 0xB4, CHR 0xA5] @ '': '' @ e"

definition txt_kb_header :: "string" where
  \<comment> \<open>header of the knowledge-base scan: existing knowledge bases check\<close>
  "txt_kb_header =
     [CHR 0xE5, CHR 0xB7, CHR 0xB2, CHR 0xE6, CHR 0x9C, CHR 0x89, CHR 0xE7, CHR 0x9F, CHR 0xA5,
     CHR 0xE8, CHR 0xAF, CHR 0x86, CHR 0xE5, CHR 0xBA, CHR 0x93, CHR 0xE6, CHR 0xA3, CHR 0x80,
     CHR 0xE6, CHR 0x9F, CHR 0xA5]"

definition txt_kb_dir_missing :: "string \<Rightarrow> string" where
  \<comment> \<open>the knowledge-base directory does not exist: {kb_base}\<close>
  "txt_kb_dir_missing p =
     [CHR 0xE7, CHR 0x9F, CHR 0xA5, CHR 0xE8, CHR 0xAF, CHR 0x86, CHR 0xE5, CHR 0xBA, CHR 0x93,
     CHR 0xE7, CHR 0x9B, CHR 0xAE, CHR 0xE5, CHR 0xBD, CHR 0x95, CHR 0xE4, CHR 0xB8, CHR 0x8D,
     CHR 0xE5, CHR 0xAD, CHR 0x98, CHR 0xE5, CHR 0x9C, CHR 0xA8] @ '': '' @ p"

definition txt_kb_empty :: "string \<Rightarrow> string" where
  \<comment> \<open>{kb_name}: empty knowledge base\<close>
  "txt_kb_empty kb =
     kb @ '': '' @ [CHR 0xE7, CHR 0xA9, CHR 0xBA, CHR 0xE7, CHR 0x9F, CHR 0xA5, CHR 0xE8,
     CHR 0xAF, CHR 0x86, CHR 0xE5, CHR 0xBA, CHR 0x93]"

definition txt_no_kb_found :: "string" where
  \<comment> \<open>no initialised knowledge base found\<close>
  "txt_no_kb_found =
     [CHR 0xE6, CHR 0xB2, CHR 0xA1, CHR 0xE6, CHR 0x9C, CHR 0x89, CHR 0xE6, CHR 0x89, CHR 0xBE,
     CHR 0xE5, CHR 0x88, CHR 0xB0, CHR 0xE5, CHR 0xB7, CHR 0xB2, CHR 0xE5, CHR 0x88, CHR 0x9D,
     CHR 0xE5, CHR 0xA7, CHR 0x8B, CHR 0xE5, CHR 0x8C, CHR 0x96, CHR 0xE7, CHR 0x9A, CHR 0x84,
     CHR 0xE7, CHR 0x9F, CHR 0xA5, CHR 0xE8, CHR 0xAF, CHR 0x86, CHR 0xE5, CHR 0xBA, CHR 0x93]"

definition txt_env_header :: "string" where
  \<comment> \<open>header of the environment check: environment variables check\<close>
  "txt_env_header =
     [CHR 0xE7, CHR 0x8E, CHR 0xAF, CHR 0xE5, CHR 0xA2, CHR 0x83, CHR 0xE5, CHR 0x8F, CHR 0x98,
     CHR 0xE9, CHR 0x87, CHR 0x8F, CHR 0xE6, CHR 0xA3, CHR 0x80, CHR 0xE6, CHR 0x9F, CHR 0xA5]"

definition txt_not_set :: "string \<Rightarrow> string" where
  \<comment> \<open>{var}: not set\<close>
  "txt_not_set var =
     var @ '': '' @ [CHR 0xE6, CHR 0x9C, CHR 0xAA, CHR 0xE8, CHR 0xAE, CHR 0xBE, CHR 0xE7,
     CHR 0xBD, CHR 0xAE]"

definition txt_summary_header :: "string" where
  \<comment> \<open>header of the summary: diagnostic summary\<close>
  "txt_summary_header =
     [CHR 0xE8, CHR 0xAF, CHR 0x8A, CHR 0xE6, CHR 0x96, CHR 0xAD, CHR 0xE6, CHR 0x80, CHR 0xBB,
     CHR 0xE7, CHR 0xBB, CHR 0x93]"

definition txt_key_available :: "string \<Rightarrow> string" where
  \<comment> \<open>{key}: available\<close>
  "txt_key_available k =
     k @ '': '' @ [CHR 0xE5, CHR 0x8F, CHR 0xAF, CHR 0xE7, CHR 0x94, CHR 0xA8]"

definition txt_key_unavailable :: "string \<Rightarrow> string" where
  \<comment> \<open>{key}: unavailable\<close>
  "txt_key_unavailable k =
     k @ '': '' @ [CHR 0xE4, CHR 0xB8, CHR 0x8D, CHR 0xE5, CHR 0x8F, CHR 0xAF, CHR 0xE7,
     CHR 0x94, CHR 0xA8]"

definition txt_recommendations_header :: "string" where
  \<comment> \<open>header of the recommendations: suggestions\<close>
  "txt_recommendations_header =
     [CHR 0xE5, CHR 0xBB, CHR 0xBA, CHR 0xE8, CHR 0xAE, CHR 0xAE]"

definition txt_rec_install :: "string" where
  \<comment> \<open>recommendation: install RAG-Anything (three lines)\<close>
  "txt_rec_install =
     [CHR 0xE5, CHR 0xAE, CHR 0x89, CHR 0xE8, CHR 0xA3, CHR 0x85] @ '' RAG-Anything:'' @
     [CHR 0x0A] @
     ''    git clone https://github.com/HKUDS/RAG-Anything.git ../raganything/RAG-Anything'' @
     [CHR 0x0A] @ ''    pip install -r ../raganything/RAG-Anything/requirements.txt''"

definition txt_rec_embedding :: "string" where
  \<comment> \<open>recommendation: configure the embedding service (two lines)\<close>
  "txt_rec_embedding =
     [CHR 0xE9, CHR 0x85, CHR 0x8D, CHR 0xE7, CHR 0xBD, CHR 0xAE] @ '' Embedding '' @
     [CHR 0xE6, CHR 0x9C, CHR 0x8D, CHR 0xE5, CHR 0x8A, CHR 0xA1] @ '':'' @ [CHR 0x0A] @
     ''    '' @ [CHR 0xE7, CHR 0xA1, CHR 0xAE, CHR 0xE4, CHR 0xBF, CHR 0x9D, CHR 0xE5,
     CHR 0x9C, CHR 0xA8] @ '' DeepTutor.env '' @ [CHR 0xE6, CHR 0x88, CHR 0x96] @ '' .env '' @
     [CHR 0xE4, CHR 0xB8, CHR 0xAD, CHR 0xE8, CHR 0xAE, CHR 0xBE, CHR 0xE7, CHR 0xBD, CHR 0xAE,
     CHR 0xE4, CHR 0xBA, CHR 0x86, CHR 0xE6, CHR 0xAD, CHR 0xA3, CHR 0xE7, CHR 0xA1, CHR 0xAE,
     CHR 0xE7, CHR 0x9A, CHR 0x84] @ '' API key '' @ [CHR 0xE5, CHR 0x92, CHR 0x8C] @
     '' base URL''"

definition txt_rec_llm :: "string" where
  \<comment> \<open>recommendation: configure the LLM service (two lines)\<close>
  "txt_rec_llm =
     [CHR 0xE9, CHR 0x85, CHR 0x8D, CHR 0xE7, CHR 0xBD, CHR 0xAE] @ '' LLM '' @ [CHR 0xE6,
     CHR 0x9C, CHR 0x8D, CHR 0xE5, CHR 0x8A, CHR 0xA1] @ '':'' @ [CHR 0x0A] @ ''    '' @
     [CHR 0xE7, CHR 0xA1, CHR 0xAE, CHR 0xE4, CHR 0xBF, CHR 0x9D, CHR 0xE5, CHR 0x9C, CHR 0xA8]
     @ '' DeepTutor.env '' @ [CHR 0xE6, CHR 0x88, CHR 0x96] @ '' .env '' @ [CHR 0xE4, CHR 0xB8,
     CHR 0xAD, CHR 0xE8, CHR 0xAE, CHR 0xBE, CHR 0xE7, CHR 0xBD, CHR 0xAE, CHR 0xE4, CHR 0xBA,
     CHR 0x86, CHR 0xE6, CHR 0xAD, CHR 0xA3, CHR 0xE7, CHR 0xA1, CHR 0xAE, CHR 0xE7, CHR 0x9A,
     CHR 0x84] @ '' OPENAI_API_KEY''"

definition txt_llamaindex_note :: "string" where
  \<comment> \<open>the llamaindex pipeline can be used without RAG-Anything (lightweight vector search)\<close>
  "txt_llamaindex_note =
     ''llamaindex pipeline '' @ [CHR 0xE5, CHR 0x8F, CHR 0xAF, CHR 0xE4, CHR 0xBB, CHR 0xA5,
     CHR 0xE5, CHR 0x9C, CHR 0xA8, CHR 0xE6, CHR 0xB2, CHR 0xA1, CHR 0xE6, CHR 0x9C, CHR 0x89]
     @ '' RAG-Anything '' @ [CHR 0xE7, CHR 0x9A, CHR 0x84, CHR 0xE6, CHR 0x83, CHR 0x85,
     CHR 0xE5, CHR 0x86, CHR 0xB5, CHR 0xE4, CHR 0xB8, CHR 0x8B, CHR 0xE4, CHR 0xBD, CHR 0xBF,
     CHR 0xE7, CHR 0x94, CHR 0xA8] @ '' ('' @ [CHR 0xE8, CHR 0xBD, CHR 0xBB, CHR 0xE9,
     CHR 0x87, CHR 0x8F, CHR 0xE7, CHR 0xBA, CHR 0xA7, CHR 0xE5, CHR 0x90, CHR 0x91, CHR 0xE9,
     CHR 0x87, CHR 0x8F, CHR 0xE6, CHR 0x90, CHR 0x9C, CHR 0xE7, CHR 0xB4, CHR 0xA2] @ '')''"

definition txt_numbered :: "string \<Rightarrow> string \<Rightarrow> string" where
  \<comment> \<open>one numbered recommendation\<close>
  "txt_numbered i rec =
     [CHR 0x0A] @ ''  '' @ i @ ''. '' @ rec"

definition txt_all_ok :: "string" where
  \<comment> \<open>all services are running normally!\<close>
  "txt_all_ok =
     [CHR 0xE6, CHR 0x89, CHR 0x80, CHR 0xE6, CHR 0x9C, CHR 0x89, CHR 0xE6, CHR 0x9C, CHR 0x8D,
     CHR 0xE5, CHR 0x8A, CHR 0xA1, CHR 0xE6, CHR 0xAD, CHR 0xA3, CHR 0xE5, CHR 0xB8, CHR 0xB8,
     CHR 0xE8, CHR 0xBF, CHR 0x90, CHR 0xE8, CHR 0xA1, CHR 0x8C] @ ''!''"

definition txt_banner :: "string" where
  \<comment> \<open>the bold banner: DeepTutor RAG Pipeline diagnostic tool\<close>
  "txt_banner =
     [CHR 0x0A, CHR 0x1B] @ ''[1mDeepTutor RAG Pipeline '' @ [CHR 0xE8, CHR 0xAF, CHR 0x8A,
     CHR 0xE6, CHR 0x96, CHR 0xAD, CHR 0xE5, CHR 0xB7, CHR 0xA5, CHR 0xE5, CHR 0x85, CHR 0xB7,
     CHR 0x1B] @ ''[0m''"

definition txt_project_root :: "string \<Rightarrow> string" where
  \<comment> \<open>project root: {project_root}, with the newline the source appends\<close>
  "txt_project_root p =
     [CHR 0xE9, CHR 0xA1, CHR 0xB9, CHR 0xE7, CHR 0x9B, CHR 0xAE, CHR 0xE6, CHR 0xA0, CHR 0xB9,
     CHR 0xE7, CHR 0x9B, CHR 0xAE, CHR 0xE5, CHR 0xBD, CHR 0x95] @ '': '' @ p @ [CHR 0x0A]"

definition txt_search_header :: "string" where
  \<comment> \<open>header of the live search: search function test\<close>
  "txt_search_header =
     [CHR 0xE6, CHR 0x90, CHR 0x9C, CHR 0xE7, CHR 0xB4, CHR 0xA2, CHR 0xE5, CHR 0x8A, CHR 0x9F,
     CHR 0xE8, CHR 0x83, CHR 0xBD, CHR 0xE6, CHR 0xB5, CHR 0x8B, CHR 0xE8, CHR 0xAF, CHR 0x95]"

subsection \<open>The outside\<close>

record embedding_client =
  config_model :: "string option"
    \<comment> \<open>\<open>None\<close>: the client has no attribute \<^verbatim>\<open>config\<close>; \<open>Some m\<close>: the text of \<^verbatim>\<open>client.config.model\<close>\<close>

record llm_config =
  llm_model :: string
  llm_base_url :: string

record pipeline_info =
  p_id :: string
  p_name :: string
  p_description :: string

record components =
  parser :: "string option"
  chunkers :: "string list"
  embedder :: "string option"
  indexers :: "string list"
  retriever :: "string option"

text \<open>
  A pipeline object either has no attribute \<^verbatim>\<open>_parser\<close> (\<open>None\<close>) or carries its stages:
  the name of a stage that is set, and the names of the chunkers and indexers.
\<close>

type_synonym pipeline = "components option"

record dir_entry =
  d_name :: string
  is_dir :: bool
  has_rag_storage :: bool
  has_content_list :: bool
  has_numbered_items :: bool

record search_result =
  answer :: "string option"
    \<comment> \<open>the value under the key \<^verbatim>\<open>answer\<close>, \<open>None\<close> when the key is absent\<close>

record world =
  environ :: "string \<rightharpoonup> string"
    \<comment> \<open>the process environment after both env files were loaded without override\<close>
  project_root :: string
  raganything_path :: string
  raganything_path_exists :: bool
  import_raganything :: "exn option"
  import_lightrag :: "exn option"
  import_embedding :: "exn option"
  get_embedding_client :: "exn + embedding_client"
  import_llm :: "exn option"
  get_llm_config :: "exn + llm_config"
  import_factory :: "exn option"
  list_pipelines :: "exn + pipeline_info list"
  get_pipeline :: "string \<Rightarrow> exn + pipeline"
  kb_base :: string
  kb_base_exists :: bool
  kb_base_iterdir :: "exn + dir_entry list"
  import_rag_tool :: "exn option"
  rag_search :: "string \<Rightarrow> string \<Rightarrow> string \<Rightarrow> string \<Rightarrow> exn + search_result"
  py_str :: "pyval \<Rightarrow> string"
    \<comment> \<open>the text Python prints for a list or a dict inside an f-string\<close>

subsection \<open>check_environment\<close>

definition env_vars :: "(string \<times> string option) list" where
  "env_vars =
     [(''RAG_PROVIDER'', Some ''raganything''),
      (''OPENAI_API_KEY'', None),
      (''OPENAI_BASE_URL'', None),
      (''LLM_MODEL'', None),
      (''EMBEDDING_MODEL'', None)]"

definition getenv :: "(string \<rightharpoonup> string) \<Rightarrow> string \<Rightarrow> string option \<Rightarrow> string option" where
  \<comment> \<open>\<^verbatim>\<open>os.getenv(var, default)\<close>: the default only when the variable is absent\<close>
  "getenv env var dflt = (case env var of None \<Rightarrow> dflt | Some v \<Rightarrow> Some v)"

definition truthy :: "string option \<Rightarrow> bool" where
  \<comment> \<open>\<^verbatim>\<open>if value:\<close> for a value that is a string or \<^verbatim>\<open>None\<close>\<close>
  "truthy value = (case value of None \<Rightarrow> False | Some v \<Rightarrow> v \<noteq> [])"

definition check_env_var :: "(string \<rightharpoonup> string) \<Rightarrow> string \<Rightarrow> string option \<Rightarrow> event" where
  \<comment> \<open>the body of the loop of \<^verbatim>\<open>check_environment\<close>\<close>
  "check_env_var env var dflt =
     (let value = getenv env var dflt in
      if truthy value then
        (if sublist ''KEY'' var \<and> truthy value then Success (var @ '': '' @ masked (the value))
         else Success (var @ '': '' @ the value))
      else Warning (txt_not_set var))"

definition check_environment :: "world \<Rightarrow> event list" where
  "check_environment w =
     Header txt_env_header # map (\<lambda>(var, dflt). check_env_var (environ w) var dflt) env_vars"

subsection \<open>The service and library checks\<close>

definition check_rag_anything_availability :: "world \<Rightarrow> bool run" where
  "check_rag_anything_availability w =
     then_run (emit [Header txt_raganything_header]) (\<lambda>_.
     then_run (emit (if raganything_path_exists w
                     then [Success (txt_path_exists (raganything_path w))]
                     else [Warning (txt_path_missing (raganything_path w)),
                           Info txt_path_affects])) (\<lambda>_.
     try_except
       (then_run (import_from (import_raganything w)) (\<lambda>_.
        then_run (emit [Success txt_raganything_importable]) (\<lambda>_.
        returns True)))
       is_ImportError
       (\<lambda>e. then_run (emit [Error (txt_raganything_not_importable (exn_str e))]) (\<lambda>_.
            returns False))))"

definition check_lightrag_availability :: "world \<Rightarrow> bool run" where
  "check_lightrag_availability w =
     then_run (emit [Header txt_lightrag_header]) (\<lambda>_.
     try_except
       (then_run (import_from (import_lightrag w)) (\<lambda>_.
        then_run (emit [Success txt_lightrag_importable]) (\<lambda>_.
        returns True)))
       is_ImportError
       (\<lambda>e. then_run (emit [Error (txt_lightrag_not_importable (exn_str e))]) (\<lambda>_.
            returns False)))"

definition check_embedding_service :: "world \<Rightarrow> bool run" where
  "check_embedding_service w =
     then_run (emit [Header txt_embedding_header]) (\<lambda>_.
     try_except
       (then_run (import_from (import_embedding w)) (\<lambda>_.
        then_run (call (get_embedding_client w)) (\<lambda>client.
        then_run (emit [Success txt_embedding_available]) (\<lambda>_.
        then_run (emit [Info (''Model: '' @
                    (case config_model client of Some m \<Rightarrow> m | None \<Rightarrow> ''unknown''))]) (\<lambda>_.
        returns True)))))
       is_Exception
       (\<lambda>e. then_run (emit [Error (txt_embedding_error (exn_str e))]) (\<lambda>_.
            returns False)))"

definition check_llm_service :: "world \<Rightarrow> bool run" where
  "check_llm_service w =
     then_run (emit [Header txt_llm_header]) (\<lambda>_.
     try_except
       (then_run (import_from (import_llm w)) (\<lambda>_.
        then_run (call (get_llm_config w)) (\<lambda>config.
        then_run (emit [Success txt_llm_available]) (\<lambda>_.
        then_run (emit [Info (''Model: '' @ llm_model config)]) (\<lambda>_.
        then_run (emit [Info (if length (llm_base_url config) > 50
                              then ''Base URL: '' @ take 50 (llm_base_url config) @ ''...''
                              else ''Base URL: '' @ llm_base_url config)]) (\<lambda>_.
        returns True))))))
       is_Exception
       (\<lambda>e. then_run (emit [Error (txt_llm_error (exn_str e))]) (\<lambda>_.
            returns False)))"

subsection \<open>check_pipelines\<close>

definition component_lines :: "world \<Rightarrow> components \<Rightarrow> string list" where
  \<comment> \<open>the list \<^verbatim>\<open>components\<close> built for a pipeline that has the attribute \<^verbatim>\<open>_parser\<close>\<close>
  "component_lines w c =
     (case parser c of Some n \<Rightarrow> [''Parser: '' @ n] | None \<Rightarrow> []) @
     (if chunkers c \<noteq> [] then [''Chunkers: '' @ py_str w (PList (chunkers c))] else []) @
     (case embedder c of Some n \<Rightarrow> [''Embedder: '' @ n] | None \<Rightarrow> []) @
     (if indexers c \<noteq> [] then [''Indexers: '' @ py_str w (PList (indexers c))] else []) @
     (case retriever c of Some n \<Rightarrow> [''Retriever: '' @ n] | None \<Rightarrow> [])"

definition check_pipeline ::
    "world \<Rightarrow> pipeline_info \<Rightarrow> (string \<times> string) list \<Rightarrow> (string \<times> string) list run" where
  \<comment> \<open>the body of the loop: \<open>results\<close> is the dict, in insertion order\<close>
  "check_pipeline w p results =
     (let pid = p_id p in
      then_run (emit [Print (txt_pipeline_title pid (p_name p)),
                      Print (txt_description (p_description p))]) (\<lambda>_.
      try_except
        (then_run (call (get_pipeline w pid)) (\<lambda>pipeline.
         then_run (emit [Success txt_instance_created]) (\<lambda>_.
         then_run (emit (case pipeline of
                           None \<Rightarrow> []
                         | Some c \<Rightarrow> map Info (component_lines w c))) (\<lambda>_.
         returns (AList.update pid ''available'' results)))))
        is_Exception
        (\<lambda>e. then_run (emit [Error (txt_creation_failed (exn_str e))]) (\<lambda>_.
             returns (AList.update pid (''error: '' @ exn_str e) results)))))"

fun check_pipelines_loop ::
    "world \<Rightarrow> pipeline_info list \<Rightarrow> (string \<times> string) list \<Rightarrow> (string \<times> string) list run" where
  "check_pipelines_loop w [] results = returns results"
| "check_pipelines_loop w (p # ps) results =
     then_run (check_pipeline w p results) (\<lambda>results'. check_pipelines_loop w ps results')"

definition check_pipelines :: "world \<Rightarrow> (string \<times> string) list run" where
  "check_pipelines w =
     then_run (emit [Header txt_pipelines_header]) (\<lambda>_.
     then_run (import_from (import_factory w)) (\<lambda>_.
     then_run (call (list_pipelines w)) (\<lambda>pipelines.
     then_run (emit [Info (txt_registered (str_nat (length pipelines)))]) (\<lambda>_.
     check_pipelines_loop w pipelines []))))"

subsection \<open>test_pipeline_search\<close>

definition find_kb :: "world \<Rightarrow> string option \<Rightarrow> string option run" where
  \<comment> \<open>the block under \<^verbatim>\<open>if kb_name is None\<close>: the first directory that has \<^verbatim>\<open>rag_storage\<close>\<close>
  "find_kb w kb_name =
     (case kb_name of
        Some kb \<Rightarrow> returns (Some kb)
      | None \<Rightarrow>
          if kb_base_exists w then
            then_run (call (kb_base_iterdir w)) (\<lambda>entries.
            (case [d_name d. d \<leftarrow> entries, is_dir d \<and> has_rag_storage d] of
               [] \<Rightarrow> returns None
             | kb # _ \<Rightarrow> then_run (emit [Info (txt_using_kb kb)]) (\<lambda>_. returns (Some kb))))
          else returns None)"

definition search_query :: string where
  "search_query = ''What is the main topic?''"

definition test_pipeline_search :: "world \<Rightarrow> string \<Rightarrow> string option \<Rightarrow> bool run" where
  "test_pipeline_search w pipeline_id kb_name =
     then_run (import_from (import_rag_tool w)) (\<lambda>_.
     then_run (import_from (import_factory w)) (\<lambda>_.
     then_run (emit [Print (txt_testing_search pipeline_id)]) (\<lambda>_.
     then_run (find_kb w kb_name) (\<lambda>kb_name.
     (case kb_name of
        None \<Rightarrow> then_run (emit [Warning txt_no_kb_skip]) (\<lambda>_. returns False)
      | Some kb \<Rightarrow>
          try_except
            (then_run (emit [Search search_query kb ''naive'' pipeline_id]) (\<lambda>_.
             then_run (call (rag_search w search_query kb ''naive'' pipeline_id)) (\<lambda>result.
             (let answer_len = length (case answer result of None \<Rightarrow> [] | Some a \<Rightarrow> a) in
              if answer_len > 0 then
                then_run (emit [Success (txt_search_ok (str_nat answer_len))]) (\<lambda>_.
                returns True)
              else
                then_run (emit [Warning txt_search_empty]) (\<lambda>_.
                returns False)))))
            is_Exception
            (\<lambda>e. then_run (emit [Error (txt_search_failed (exn_str e))]) (\<lambda>_.
                 returns False)))))))"

subsection \<open>check_existing_knowledge_bases\<close>

definition kb_status :: "dir_entry \<Rightarrow> string list" where
  \<comment> \<open>the list \<^verbatim>\<open>status\<close>: the labels of the marker paths that exist\<close>
  "kb_status d =
     (if has_rag_storage d then [''rag_storage''] else []) @
     (if has_content_list d then [''content_list''] else []) @
     (if has_numbered_items d then [''numbered_items''] else [])"

fun join :: "string \<Rightarrow> string list \<Rightarrow> string" where
  \<comment> \<open>\<^verbatim>\<open>sep.join(xs)\<close>\<close>
  "join sep [] = []"
| "join sep [x] = x"
| "join sep (x # y # ys) = x @ sep @ join sep (y # ys)"

definition scan_entry :: "dir_entry \<Rightarrow> string list \<Rightarrow> string list run" where
  \<comment> \<open>the body of the loop over \<^verbatim>\<open>kb_base.iterdir()\<close>\<close>
  "scan_entry d kbs =
     (if is_dir d then
        (let status = kb_status d in
         if status \<noteq> [] then
           then_run (emit [Success (d_name d @ '': '' @ join '', '' status)]) (\<lambda>_.
           returns (kbs @ [d_name d]))
         else
           then_run (emit [Warning (txt_kb_empty (d_name d))]) (\<lambda>_.
           returns kbs))
      else returns kbs)"

fun scan_loop :: "dir_entry list \<Rightarrow> string list \<Rightarrow> string list run" where
  "scan_loop [] kbs = returns kbs"
| "scan_loop (d # ds) kbs = then_run (scan_entry d kbs) (\<lambda>kbs'. scan_loop ds kbs')"

definition check_existing_knowledge_bases :: "world \<Rightarrow> string list run" where
  "check_existing_knowledge_bases w =
     then_run (emit [Header txt_kb_header]) (\<lambda>_.
     if \<not> kb_base_exists w then
       then_run (emit [Warning (txt_kb_dir_missing (kb_base w))]) (\<lambda>_.
       returns [])
     else
       then_run (call (kb_base_iterdir w)) (\<lambda>entries.
       then_run (scan_loop entries []) (\<lambda>kbs.
       then_run (emit (if kbs = [] then [Warning txt_no_kb_found] else [])) (\<lambda>_.
       returns kbs))))"

subsection \<open>Summary, recommendations and the driver\<close>

text \<open>
  The dict \<^verbatim>\<open>results\<close> of \<^verbatim>\<open>main\<close> always holds the same six keys, each assigned once; it
  is a record, and \<open>items\<close> gives its entries in the order of their assignment.
\<close>

record results =
  embedding_service :: bool
  llm_service :: bool
  rag_anything_lib :: bool
  lightrag_lib :: bool
  pipelines :: "(string \<times> string) list"
  knowledge_bases :: "string list"

definition items :: "results \<Rightarrow> (string \<times> pyval) list" where
  "items r =
     [(''embedding_service'', PBool (embedding_service r)),
      (''llm_service'', PBool (llm_service r)),
      (''rag_anything_lib'', PBool (rag_anything_lib r)),
      (''lightrag_lib'', PBool (lightrag_lib r)),
      (''pipelines'', PDict (pipelines r)),
      (''knowledge_bases'', PList (knowledge_bases r))]"

definition summary_line :: "world \<Rightarrow> string \<Rightarrow> pyval \<Rightarrow> event" where
  \<comment> \<open>the body of the loop of \<^verbatim>\<open>print_summary\<close>\<close>
  "summary_line w key val =
     (if val = PBool True \<or> val = PStr ''available'' then Success (txt_key_available key)
      else if val = PBool False then Error (txt_key_unavailable key)
      else (case val of
              PStr s \<Rightarrow>
                if prefix ''error'' s then Error (key @ '': '' @ s)
                else Warning (key @ '': '' @ s)
            | _ \<Rightarrow> Warning (key @ '': '' @ py_str w val)))"

definition print_summary :: "world \<Rightarrow> results \<Rightarrow> event list" where
  "print_summary w r =
     Header txt_summary_header # map (\<lambda>(key, val). summary_line w key val) (items r)"

definition print_recommendations :: "results \<Rightarrow> event list" where
  "print_recommendations r =
     (let recommendations =
            (if \<not> rag_anything_lib r then [txt_rec_install] else []) @
            (if \<not> embedding_service r then [txt_rec_embedding] else []) @
            (if \<not> llm_service r then [txt_rec_llm] else [])
      in
        [Header txt_recommendations_header] @
        (if map_of (pipelines r) ''llamaindex'' = Some ''available''
         then [Success txt_llamaindex_note] else []) @
        (if recommendations \<noteq> [] then
           map (\<lambda>(i, rec). Print (txt_numbered (str_nat i) rec))
             (zip [1 ..< Suc (length recommendations)] recommendations)
         else [Success txt_all_ok]))"

definition main :: "world \<Rightarrow> unit run" where
  "main w =
     then_run (emit [Print txt_banner, Print (txt_project_root (project_root w))]) (\<lambda>_.
     then_run (emit (check_environment w)) (\<lambda>_.
     then_run (check_embedding_service w) (\<lambda>emb.
     then_run (check_llm_service w) (\<lambda>llm.
     then_run (check_rag_anything_availability w) (\<lambda>rag.
     then_run (check_lightrag_availability w) (\<lambda>light.
     then_run (check_pipelines w) (\<lambda>pipes.
     then_run (check_existing_knowledge_bases w) (\<lambda>kbs.
     (let results =
            \<lparr>embedding_service = emb, llm_service = llm, rag_anything_lib = rag,
             lightrag_lib = light, pipelines = pipes, knowledge_bases = kbs\<rparr>
      in
        then_run (emit (print_summary w results)) (\<lambda>_.
        then_run (emit (print_recommendations results)) (\<lambda>_.
        if kbs \<noteq> [] \<and> rag_anything_lib results then
          then_run (emit [Header txt_search_header]) (\<lambda>_.
          then_run (test_pipeline_search w ''raganything'' (Some (hd kbs))) (\<lambda>_.
          returns ()))
        else returns ())))))))))))"

subsection \<open>Observations of a run\<close>

text \<open>
  The texts of the headers that a sequence of events prints, and the search calls in it,
  both in order. Every check starts with its header, so the headers of a run tell which
  checks ran and in which order.
\<close>

fun header_texts :: "event list \<Rightarrow> string list" where
  "header_texts [] = []"
| "header_texts (Header t # es) = t # header_texts es"
| "header_texts (e # es) = header_texts es"

definition search_calls :: "event list \<Rightarrow> event list" where
  "search_calls es = filter is_Search es"

definition header_order :: "string list" where
  \<comment> \<open>the headers of the checks in the order in which \<^verbatim>\<open>main\<close> calls them\<close>
  "header_order =
     [txt_env_header, txt_embedding_header, txt_llm_header, txt_raganything_header,
      txt_lightrag_header, txt_pipelines_header, txt_kb_header, txt_summary_header,
      txt_recommendations_header, txt_search_header]"

subsection \<open>Concrete runs\<close>

text \<open>
  A world in which every external call succeeds: two registered pipelines, of which
  \<^verbatim>\<open>llamaindex\<close> can be built and \<^verbatim>\<open>raganything\<close> cannot; a knowledge-base directory with a
  plain file, a directory without markers, one with \<^verbatim>\<open>content_list\<close> only and one with
  \<^verbatim>\<open>rag_storage\<close> and \<^verbatim>\<open>numbered_items.json\<close>; a search that answers.
\<close>

definition healthy :: world where
  "healthy =
     \<lparr>environ = [''OPENAI_API_KEY'' \<mapsto> ''sk-1234567890abcdef'', ''LLM_MODEL'' \<mapsto> ''gpt-4o''],
      project_root = ''/srv/DeepTutor'',
      raganything_path = ''/srv/raganything/RAG-Anything'',
      raganything_path_exists = True,
      import_raganything = None,
      import_lightrag = None,
      import_embedding = None,
      get_embedding_client = Inr \<lparr>config_model = Some ''text-embedding-3-large''\<rparr>,
      import_llm = None,
      get_llm_config = Inr \<lparr>llm_model = ''gpt-4o'', llm_base_url = ''https://api.openai.com/v1''\<rparr>,
      import_factory = None,
      list_pipelines =
        Inr [\<lparr>p_id = ''llamaindex'', p_name = ''LlamaIndex'', p_description = ''vector search''\<rparr>,
             \<lparr>p_id = ''raganything'', p_name = ''RAG-Anything'', p_description = ''multimodal''\<rparr>],
      get_pipeline =
        (\<lambda>pid. if pid = ''llamaindex''
               then Inr (Some \<lparr>parser = Some ''pdf'', chunkers = [''semantic''], embedder = None,
                                indexers = [], retriever = Some ''dense''\<rparr>)
               else Inl (OtherException ''no storage'')),
      kb_base = ''/srv/DeepTutor/data/knowledge_bases'',
      kb_base_exists = True,
      kb_base_iterdir =
        Inr [\<lparr>d_name = ''notes.txt'', is_dir = False, has_rag_storage = False,
              has_content_list = False, has_numbered_items = False\<rparr>,
             \<lparr>d_name = ''drafts'', is_dir = True, has_rag_storage = False,
              has_content_list = False, has_numbered_items = False\<rparr>,
             \<lparr>d_name = ''physics'', is_dir = True, has_rag_storage = False,
              has_content_list = True, has_numbered_items = False\<rparr>,
             \<lparr>d_name = ''algebra'', is_dir = True, has_rag_storage = True,
              has_content_list = False, has_numbered_items = True\<rparr>],
      import_rag_tool = None,
      rag_search = (\<lambda>query kb mode provider. Inr \<lparr>answer = Some ''Mechanics.''\<rparr>),
      py_str = (\<lambda>v. ''<container>'')\<rparr>"

section \<open>Properties\<close>

subsection \<open>Sequencing and handlers\<close>

lemma fst_returns [simp]: "fst (returns x) = []" and snd_returns [simp]: "snd (returns x) = Inr x"
  by (simp_all add: returns_def)

lemma fst_emit [simp]: "fst (emit es) = es" and snd_emit [simp]: "snd (emit es) = Inr ()"
  by (simp_all add: emit_def)

lemma fst_call [simp]: "fst (call r) = []" and snd_call [simp]: "snd (call r) = r"
  by (simp_all add: call_def)

lemma fst_import_from [simp]: "fst (import_from r) = []"
  by (simp add: import_from_def split: option.splits)

lemma snd_import_from [simp]:
  "snd (import_from r) = (case r of None \<Rightarrow> Inr () | Some e \<Rightarrow> Inl e)"
  by (simp add: import_from_def split: option.splits)

lemma fst_then_run:
  "fst (then_run m f) = fst m @ (case snd m of Inl e \<Rightarrow> [] | Inr x \<Rightarrow> fst (f x))"
  by (simp add: then_run_def split: prod.splits sum.splits)

lemma snd_then_run:
  "snd (then_run m f) = (case snd m of Inl e \<Rightarrow> Inl e | Inr x \<Rightarrow> snd (f x))"
  by (simp add: then_run_def split: prod.splits sum.splits)

lemma fst_try_except:
  "fst (try_except body catches handler) =
     fst body @ (case snd body of
                   Inl e \<Rightarrow> if catches e then fst (handler e) else []
                 | Inr x \<Rightarrow> [])"
  by (simp add: try_except_def split: prod.splits sum.splits)

lemma snd_try_except:
  "snd (try_except body catches handler) =
     (case snd body of
        Inl e \<Rightarrow> if catches e then snd (handler e) else Inl e
      | Inr x \<Rightarrow> Inr x)"
  by (simp add: try_except_def split: prod.splits sum.splits)

lemmas run_simps = fst_then_run snd_then_run fst_try_except snd_try_except

subsection \<open>scan\<close>

lemma fst_scan_entry: "fst (scan_entry d kbs) = fst (scan_entry d [])"
  by (simp add: scan_entry_def Let_def run_simps)

lemma snd_scan_entry:
  "snd (scan_entry d kbs) = Inr (kbs @ (if is_dir d \<and> kb_status d \<noteq> [] then [d_name d] else []))"
  by (simp add: scan_entry_def Let_def run_simps)

lemma scan_loop_eq:
  "scan_loop ds kbs =
     (concat (map (\<lambda>d. fst (scan_entry d [])) ds),
      Inr (kbs @ [d_name d. d \<leftarrow> ds, is_dir d \<and> kb_status d \<noteq> []]))"
proof (induction ds arbitrary: kbs)
  case Nil
  show ?case by (simp add: returns_def)
next
  case (Cons d ds)
  have "scan_loop (d # ds) kbs =
          (fst (scan_entry d kbs) @ fst (scan_loop ds (kbs @ (if is_dir d \<and> kb_status d \<noteq> [] then [d_name d] else []))),
           snd (scan_loop ds (kbs @ (if is_dir d \<and> kb_status d \<noteq> [] then [d_name d] else []))))"
    by (simp add: prod_eq_iff run_simps snd_scan_entry)
  then show ?case
    by (simp add: Cons.IH fst_scan_entry [of d kbs])
qed

lemma kb_status_labels:
  "kb_status d =
     map fst (filter snd [(''rag_storage'', has_rag_storage d),
                          (''content_list'', has_content_list d),
                          (''numbered_items'', has_numbered_items d)])"
  by (simp add: kb_status_def)

lemma kb_status_empty:
  "kb_status d = [] \<longleftrightarrow> \<not> (has_rag_storage d \<or> has_content_list d \<or> has_numbered_items d)"
  by (simp add: kb_status_def)

lemma txt_kb_empty_inj: "txt_kb_empty a = txt_kb_empty b \<longleftrightarrow> a = b"
  by (simp add: txt_kb_empty_def)

lemma check_kbs_eq:
  assumes "kb_base_exists w" and "kb_base_iterdir w = Inr entries"
  shows "check_existing_knowledge_bases w =
           (Header txt_kb_header # concat (map (\<lambda>d. fst (scan_entry d [])) entries) @
              (if [d_name d. d \<leftarrow> entries, is_dir d \<and> kb_status d \<noteq> []] = []
               then [Warning txt_no_kb_found] else []),
            Inr [d_name d. d \<leftarrow> entries, is_dir d \<and> kb_status d \<noteq> []])"
  using assms
  by (simp add: check_existing_knowledge_bases_def prod_eq_iff run_simps scan_loop_eq)

subsection \<open>Helper facts: the environment check\<close>

lemma env_line_in_report:
  "(var, dflt) \<in> set env_vars \<Longrightarrow>
     check_env_var (environ w) var dflt \<in> set (check_environment w)"
  by (force simp: check_environment_def)

lemma env_report_lines:
  "check_environment w =
     [Header txt_env_header,
      check_env_var (environ w) ''RAG_PROVIDER'' (Some ''raganything''),
      check_env_var (environ w) ''OPENAI_API_KEY'' None,
      check_env_var (environ w) ''OPENAI_BASE_URL'' None,
      check_env_var (environ w) ''LLM_MODEL'' None,
      check_env_var (environ w) ''EMBEDDING_MODEL'' None]"
  by (simp add: check_environment_def env_vars_def)

lemma env_var_absent:
  "env var = None \<Longrightarrow> check_env_var env var None = Warning (txt_not_set var)"
  by (simp add: check_env_var_def getenv_def truthy_def)

lemma env_var_default:
  "env var = None \<Longrightarrow> \<not> sublist ''KEY'' var \<Longrightarrow> d \<noteq> [] \<Longrightarrow>
     check_env_var env var (Some d) = Success (var @ '': '' @ d)"
  by (simp add: check_env_var_def getenv_def truthy_def)

lemma env_var_set:
  "env var = Some v \<Longrightarrow> v \<noteq> [] \<Longrightarrow>
     check_env_var env var dflt =
       Success (var @ '': '' @ (if sublist ''KEY'' var then masked v else v))"
  by (simp add: check_env_var_def getenv_def truthy_def)

lemma env_var_empty:
  "env var = Some [] \<Longrightarrow> check_env_var env var dflt = Warning (txt_not_set var)"
  by (simp add: check_env_var_def getenv_def truthy_def)

lemma env_listed:
  assumes "var \<in> set [''RAG_PROVIDER'', ''OPENAI_API_KEY'', ''OPENAI_BASE_URL'', ''LLM_MODEL'',
                        ''EMBEDDING_MODEL'']"
  shows "(var, if var = ''RAG_PROVIDER'' then Some ''raganything'' else None) \<in> set env_vars"
  using assms by (auto simp: env_vars_def)

lemma rag_provider_no_key: "\<not> sublist ''KEY'' ''RAG_PROVIDER''"
  by (simp add: sublist_code(3))

lemma scan_entry_events:
  "set (fst (scan_entry d [])) =
     (if is_dir d then
        (if kb_status d \<noteq> [] then {Success (d_name d @ '': '' @ join '', '' (kb_status d))}
         else {Warning (txt_kb_empty (d_name d))})
      else {})"
  by (simp add: scan_entry_def Let_def run_simps)

lemma scan_result:
  assumes "kb_base_exists w" and "kb_base_iterdir w = Inr entries"
  shows "snd (check_existing_knowledge_bases w) =
           Inr [d_name d. d \<leftarrow> entries, is_dir d \<and> kb_status d \<noteq> []]"
  unfolding check_kbs_eq [OF assms] by (rule snd_conv)

lemma scan_out_list:
  assumes "kb_base_exists w" and "kb_base_iterdir w = Inr entries"
  shows "fst (check_existing_knowledge_bases w) =
           Header txt_kb_header # concat (map (\<lambda>d. fst (scan_entry d [])) entries) @
              (if [d_name d. d \<leftarrow> entries, is_dir d \<and> kb_status d \<noteq> []] = []
               then [Warning txt_no_kb_found] else [])"
  unfolding check_kbs_eq [OF assms] by (rule fst_conv)

lemma scan_out_intro:
  assumes "kb_base_exists w" and "kb_base_iterdir w = Inr entries"
    and "d \<in> set entries" and "e \<in> set (fst (scan_entry d []))"
  shows "e \<in> set (fst (check_existing_knowledge_bases w))"
proof -
  have "e \<in> set (concat (map (\<lambda>d. fst (scan_entry d [])) entries))"
    using assms(3,4) by auto
  then show ?thesis
    unfolding scan_out_list [OF assms(1,2)] by simp
qed

lemma scan_out_cases:
  assumes "kb_base_exists w" and "kb_base_iterdir w = Inr entries"
    and "e \<in> set (fst (check_existing_knowledge_bases w))"
  shows "e = Header txt_kb_header
       \<or> (\<exists>d \<in> set entries. e \<in> set (fst (scan_entry d [])))
       \<or> (e = Warning txt_no_kb_found
          \<and> [d_name d. d \<leftarrow> entries, is_dir d \<and> kb_status d \<noteq> []] = [])"
proof -
  define K where "K = [d_name d. d \<leftarrow> entries, is_dir d \<and> kb_status d \<noteq> []]"
  have "e \<in> set (Header txt_kb_header # concat (map (\<lambda>d. fst (scan_entry d [])) entries) @
              (if K = [] then [Warning txt_no_kb_found] else []))"
    using assms(3) unfolding scan_out_list [OF assms(1,2)] K_def .
  then have "e = Header txt_kb_header
       \<or> (\<exists>d \<in> set entries. e \<in> set (fst (scan_entry d [])))
       \<or> (e = Warning txt_no_kb_found \<and> K = [])"
    by (auto split: if_splits)
  then show ?thesis
    unfolding K_def .
qed

lemma scan_names_mem:
  assumes "distinct (map d_name entries)" and "d \<in> set entries" and "is_dir d"
  shows "d_name d \<in> set [d_name d. d \<leftarrow> entries, is_dir d \<and> kb_status d \<noteq> []]
           \<longleftrightarrow> kb_status d \<noteq> []"
proof
  assume "d_name d \<in> set [d_name d. d \<leftarrow> entries, is_dir d \<and> kb_status d \<noteq> []]"
  then obtain d' where d': "d' \<in> set entries" "d_name d' = d_name d" "kb_status d' \<noteq> []"
    by auto
  have "d' = d"
    using assms(1,2) d'(1,2) by (simp add: distinct_map inj_on_def)
  with d'(3) show "kb_status d \<noteq> []" by simp
next
  assume "kb_status d \<noteq> []"
  with assms(2,3) show "d_name d \<in> set [d_name d. d \<leftarrow> entries, is_dir d \<and> kb_status d \<noteq> []]"
    by auto
qed

lemma scan_found:
  assumes root: "kb_base_exists w" and listing: "kb_base_iterdir w = Inr entries"
    and names: "distinct (map d_name entries)"
    and d: "d \<in> set entries" and dir: "is_dir d" and st: "kb_status d \<noteq> []"
  shows "Success (d_name d @ '': '' @ join '', '' (kb_status d))
           \<in> set (fst (check_existing_knowledge_bases w))
       \<and> Warning (txt_kb_empty (d_name d)) \<notin> set (fst (check_existing_knowledge_bases w))"
proof
  have "Success (d_name d @ '': '' @ join '', '' (kb_status d)) \<in> set (fst (scan_entry d []))"
    using dir st by (simp add: scan_entry_events)
  then show "Success (d_name d @ '': '' @ join '', '' (kb_status d))
           \<in> set (fst (check_existing_knowledge_bases w))"
    by (rule scan_out_intro [OF root listing d])
  show "Warning (txt_kb_empty (d_name d)) \<notin> set (fst (check_existing_knowledge_bases w))"
  proof
    assume "Warning (txt_kb_empty (d_name d)) \<in> set (fst (check_existing_knowledge_bases w))"
    then consider
        (entry) d' where "d' \<in> set entries"
          and "Warning (txt_kb_empty (d_name d)) \<in> set (fst (scan_entry d' []))"
      | (none) "[d_name d. d \<leftarrow> entries, is_dir d \<and> kb_status d \<noteq> []] = []"
      using scan_out_cases [OF root listing] by blast
    then show False
    proof cases
      case entry
      have same: "d_name d' = d_name d"
        using entry(2) by (simp add: scan_entry_events txt_kb_empty_inj split: if_splits)
      have "d' = d"
        using names d entry(1) same by (simp add: distinct_map inj_on_def)
      with entry(2) st show False
        by (simp add: scan_entry_events split: if_splits)
    next
      case none
      moreover have "d_name d \<in> set [d_name d. d \<leftarrow> entries, is_dir d \<and> kb_status d \<noteq> []]"
        using scan_names_mem [OF names d dir] st by simp
      ultimately show False
        by (simp only: list.set empty_iff)
    qed
  qed
qed

lemma scan_empty:
  assumes root: "kb_base_exists w" and listing: "kb_base_iterdir w = Inr entries"
    and d: "d \<in> set entries" and dir: "is_dir d" and st: "kb_status d = []"
  shows "Warning (txt_kb_empty (d_name d)) \<in> set (fst (check_existing_knowledge_bases w))"
proof -
  have "Warning (txt_kb_empty (d_name d)) \<in> set (fst (scan_entry d []))"
    using dir st by (simp add: scan_entry_events)
  then show ?thesis
    by (rule scan_out_intro [OF root listing d])
qed

subsection \<open>Helper facts: numbers and the pipeline loop\<close>

lemma str_nat_small: "n < 10 \<Longrightarrow> str_nat n = [digit_char n]"
  by (subst str_nat.simps) simp

lemma str_nat_0: "str_nat 0 = ''0''"
  by (simp add: str_nat_small digit_char_def)

lemma str_nat_12: "str_nat 12 = ''12''"
  by (subst str_nat.simps, simp add: str_nat_small digit_char_def)

lemma update_mem:
  "(a, b) \<in> set (AList.update k v al) \<Longrightarrow> (a, b) = (k, v) \<or> (a, b) \<in> set al"
  by (induction al) (auto split: if_splits)

lemma update_keys: "fst ` set (AList.update k v al) = insert k (fst ` set al)"
  by (induction al) auto

lemma snd_check_pipeline:
  "snd (check_pipeline w p acc) =
     (case get_pipeline w (p_id p) of
        Inr pipeline \<Rightarrow> Inr (AList.update (p_id p) ''available'' acc)
      | Inl e \<Rightarrow> if is_Exception e
                then Inr (AList.update (p_id p) (''error: '' @ exn_str e) acc)
                else Inl e)"
  by (simp add: check_pipeline_def Let_def run_simps split: sum.splits)

lemma pipelines_loop_values:
  assumes "snd (check_pipelines_loop w ps acc) = Inr res"
    and "\<And>pid v. (pid, v) \<in> set acc \<Longrightarrow>
           (v = ''available'' \<and> (\<exists>p. get_pipeline w pid = Inr p))
         \<or> (\<exists>e. get_pipeline w pid = Inl e \<and> v = ''error: '' @ exn_str e)"
    and "(pid, v) \<in> set res"
  shows "(v = ''available'' \<and> (\<exists>p. get_pipeline w pid = Inr p))
       \<or> (\<exists>e. get_pipeline w pid = Inl e \<and> v = ''error: '' @ exn_str e)"
  using assms
proof (induction ps arbitrary: acc)
  case Nil
  then show ?case by simp
next
  case (Cons p ps)
  from Cons.prems(1) obtain acc' where step: "snd (check_pipeline w p acc) = Inr acc'"
    and rest: "snd (check_pipelines_loop w ps acc') = Inr res"
    by (auto simp: snd_then_run split: sum.splits)
  have "(v' = ''available'' \<and> (\<exists>p. get_pipeline w pid' = Inr p))
       \<or> (\<exists>e. get_pipeline w pid' = Inl e \<and> v' = ''error: '' @ exn_str e)"
    if "(pid', v') \<in> set acc'" for pid' v'
  proof (cases "get_pipeline w (p_id p)")
    case (Inl e)
    with step have acc': "acc' = AList.update (p_id p) (''error: '' @ exn_str e) acc"
      by (simp add: snd_check_pipeline split: if_splits)
    from that update_mem [of pid' v' "p_id p" "''error: '' @ exn_str e" acc]
    show ?thesis
      unfolding acc' using Inl Cons.prems(2) by blast
  next
    case (Inr pl)
    with step have acc': "acc' = AList.update (p_id p) ''available'' acc"
      by (simp add: snd_check_pipeline)
    from that update_mem [of pid' v' "p_id p" "''available''" acc]
    show ?thesis
      unfolding acc' using Inr Cons.prems(2) by blast
  qed
  from Cons.IH [OF rest this Cons.prems(3)] show ?case .
qed

lemma pipelines_loop_keys:
  "snd (check_pipelines_loop w ps acc) = Inr res \<Longrightarrow>
     fst ` set res = fst ` set acc \<union> p_id ` set ps"
proof (induction ps arbitrary: acc)
  case Nil
  then show ?case by simp
next
  case (Cons p ps)
  from Cons.prems obtain acc' where step: "snd (check_pipeline w p acc) = Inr acc'"
    and rest: "snd (check_pipelines_loop w ps acc') = Inr res"
    by (auto simp: snd_then_run split: sum.splits)
  from step obtain v0 where "acc' = AList.update (p_id p) v0 acc"
    by (auto simp: snd_check_pipeline split: sum.splits if_splits)
  then have "fst ` set acc' = insert (p_id p) (fst ` set acc)"
    by (simp only: update_keys)
  with Cons.IH [OF rest] show ?case
    by auto
qed

lemma snd_check_pipelines:
  "snd (check_pipelines w) =
     (case import_factory w of
        Some e \<Rightarrow> Inl e
      | None \<Rightarrow> (case list_pipelines w of
                   Inl e \<Rightarrow> Inl e
                 | Inr ps \<Rightarrow> snd (check_pipelines_loop w ps [])))"
  by (simp add: check_pipelines_def run_simps split: option.splits sum.splits)

subsection \<open>Headers and search calls of each check\<close>

lemma header_texts_append [simp]: "header_texts (xs @ ys) = header_texts xs @ header_texts ys"
  by (induction xs rule: header_texts.induct) simp_all

lemma header_texts_skip: "\<not> is_Header e \<Longrightarrow> header_texts (e # es) = header_texts es"
  by (cases e) simp_all

lemma header_texts_none: "\<forall>e \<in> set es. \<not> is_Header e \<Longrightarrow> header_texts es = []"
  by (induction es) (simp_all add: header_texts_skip)

lemma search_calls_append [simp]: "search_calls (xs @ ys) = search_calls xs @ search_calls ys"
  by (simp add: search_calls_def)

lemma search_calls_Cons:
  "search_calls (e # es) = (if is_Search e then e # search_calls es else search_calls es)"
  by (simp add: search_calls_def)

lemma search_calls_Nil [simp]: "search_calls [] = []"
  by (simp add: search_calls_def)

lemma search_calls_none: "\<forall>e \<in> set es. \<not> is_Search e \<Longrightarrow> search_calls es = []"
  by (simp add: search_calls_def)

lemma env_var_kind: "\<not> is_Header (check_env_var env var dflt) \<and> \<not> is_Search (check_env_var env var dflt)"
  by (simp add: check_env_var_def Let_def)

lemma env_headers: "header_texts (check_environment w) = [txt_env_header]"
  by (simp add: env_report_lines header_texts_skip env_var_kind)

lemma env_searches: "search_calls (check_environment w) = []"
  by (simp add: env_report_lines search_calls_Cons env_var_kind)

lemma embedding_headers:
  "header_texts (fst (check_embedding_service w)) = [txt_embedding_header]"
  by (simp add: check_embedding_service_def run_simps split: option.splits sum.splits)

lemma embedding_searches: "search_calls (fst (check_embedding_service w)) = []"
  by (simp add: check_embedding_service_def run_simps search_calls_Cons
      split: option.splits sum.splits)

lemma llm_headers: "header_texts (fst (check_llm_service w)) = [txt_llm_header]"
  by (simp add: check_llm_service_def run_simps split: option.splits sum.splits)

lemma llm_searches: "search_calls (fst (check_llm_service w)) = []"
  by (simp add: check_llm_service_def run_simps search_calls_Cons split: option.splits sum.splits)

lemma raganything_headers:
  "header_texts (fst (check_rag_anything_availability w)) = [txt_raganything_header]"
  by (simp add: check_rag_anything_availability_def run_simps split: option.splits sum.splits)

lemma raganything_searches: "search_calls (fst (check_rag_anything_availability w)) = []"
  by (simp add: check_rag_anything_availability_def run_simps search_calls_Cons
      split: option.splits sum.splits)

lemma lightrag_headers:
  "header_texts (fst (check_lightrag_availability w)) = [txt_lightrag_header]"
  by (simp add: check_lightrag_availability_def run_simps split: option.splits sum.splits)

lemma lightrag_searches: "search_calls (fst (check_lightrag_availability w)) = []"
  by (simp add: check_lightrag_availability_def run_simps search_calls_Cons
      split: option.splits sum.splits)

lemma check_pipeline_events:
  "\<forall>e \<in> set (fst (check_pipeline w p acc)). \<not> is_Header e \<and> \<not> is_Search e"
  by (auto simp: check_pipeline_def Let_def run_simps split: option.splits sum.splits if_splits)

lemma pipelines_loop_events:
  "\<forall>e \<in> set (fst (check_pipelines_loop w ps acc)). \<not> is_Header e \<and> \<not> is_Search e"
proof (induction ps arbitrary: acc)
  case Nil
  show ?case by simp
next
  case (Cons p ps)
  show ?case
    using check_pipeline_events [of w p acc] Cons.IH
    by (auto simp: fst_then_run split: sum.splits)
qed

lemma pipelines_headers: "header_texts (fst (check_pipelines w)) = [txt_pipelines_header]"
  using pipelines_loop_events [of w _ "[]"]
  by (simp add: check_pipelines_def run_simps header_texts_none split: option.splits sum.splits)

lemma pipelines_searches: "search_calls (fst (check_pipelines w)) = []"
  using pipelines_loop_events [of w _ "[]"]
  by (simp add: check_pipelines_def run_simps search_calls_Cons search_calls_none
      split: option.splits sum.splits)

lemma scan_entry_kind:
  "\<forall>e \<in> set (fst (scan_entry d kbs)). \<not> is_Header e \<and> \<not> is_Search e"
  by (simp add: scan_entry_def Let_def run_simps)

lemma scan_loop_events:
  "\<forall>e \<in> set (fst (scan_loop ds kbs)). \<not> is_Header e \<and> \<not> is_Search e"
proof (induction ds arbitrary: kbs)
  case Nil
  show ?case by simp
next
  case (Cons d ds)
  show ?case
    using scan_entry_kind [of d kbs] Cons.IH
    by (auto simp: fst_then_run split: sum.splits)
qed

lemma kb_headers: "header_texts (fst (check_existing_knowledge_bases w)) = [txt_kb_header]"
  using scan_loop_events [of _ "[]"]
  by (simp add: check_existing_knowledge_bases_def run_simps header_texts_none
      split: sum.splits)

lemma kb_searches: "search_calls (fst (check_existing_knowledge_bases w)) = []"
  using scan_loop_events [of _ "[]"]
  by (simp add: check_existing_knowledge_bases_def run_simps search_calls_Cons search_calls_none
      split: sum.splits)

lemma summary_line_kind: "\<not> is_Header (summary_line w key val) \<and> \<not> is_Search (summary_line w key val)"
  by (simp add: summary_line_def split: pyval.splits)

lemma summary_headers: "header_texts (print_summary w r) = [txt_summary_header]"
  by (simp add: print_summary_def items_def header_texts_skip summary_line_kind)

lemma summary_searches: "search_calls (print_summary w r) = []"
  by (simp add: print_summary_def items_def search_calls_Cons summary_line_kind)

lemma recommendations_headers:
  "header_texts (print_recommendations r) = [txt_recommendations_header]"
  by (simp add: print_recommendations_def Let_def header_texts_none split_beta)

lemma recommendations_searches: "search_calls (print_recommendations r) = []"
  by (simp add: print_recommendations_def Let_def search_calls_Cons search_calls_none split_beta)

lemma search_step_eq:
  assumes "import_rag_tool w = None" and "import_factory w = None"
  shows "test_pipeline_search w pid (Some kb) =
     (case rag_search w search_query kb ''naive'' pid of
        Inl e \<Rightarrow>
          if is_Exception e
          then ([Print (txt_testing_search pid), Search search_query kb ''naive'' pid,
                 Error (txt_search_failed (exn_str e))], Inr False)
          else ([Print (txt_testing_search pid), Search search_query kb ''naive'' pid], Inl e)
      | Inr r \<Rightarrow>
          (case answer r of
             Some (c # cs) \<Rightarrow>
               ([Print (txt_testing_search pid), Search search_query kb ''naive'' pid,
                 Success (txt_search_ok (str_nat (length (c # cs))))], Inr True)
           | _ \<Rightarrow>
               ([Print (txt_testing_search pid), Search search_query kb ''naive'' pid,
                 Warning txt_search_empty], Inr False)))"
  using assms
  by (simp add: test_pipeline_search_def find_kb_def prod_eq_iff run_simps Let_def
      split: sum.splits option.splits list.splits)

lemma search_step_aborted:
  assumes "import_rag_tool w \<noteq> None \<or> import_factory w \<noteq> None"
  shows "fst (test_pipeline_search w pid kb_name) = []"
    and "\<exists>e. snd (test_pipeline_search w pid kb_name) = Inl e"
  using assms
  by (auto simp: test_pipeline_search_def run_simps split: option.splits)

lemma search_step_headers: "header_texts (fst (test_pipeline_search w pid kb_name)) = []"
  by (simp add: test_pipeline_search_def find_kb_def run_simps Let_def
      split: sum.splits option.splits list.splits)

lemma search_step_calls:
  "search_calls (fst (test_pipeline_search w pid (Some kb))) =
     (if import_rag_tool w = None \<and> import_factory w = None
      then [Search search_query kb ''naive'' pid] else [])"
  by (simp add: test_pipeline_search_def find_kb_def run_simps Let_def search_calls_Cons
      split: sum.splits option.splits list.splits)

subsection \<open>Helper facts: the driver\<close>

lemma main_complete:
  assumes "snd (check_embedding_service w) = Inr emb"
    and "snd (check_llm_service w) = Inr llm"
    and "snd (check_rag_anything_availability w) = Inr rag"
    and "snd (check_lightrag_availability w) = Inr light"
    and "snd (check_pipelines w) = Inr pipes"
    and "snd (check_existing_knowledge_bases w) = Inr kbs"
  shows "fst (main w) =
           [Print txt_banner, Print (txt_project_root (project_root w))] @
           check_environment w @
           fst (check_embedding_service w) @
           fst (check_llm_service w) @
           fst (check_rag_anything_availability w) @
           fst (check_lightrag_availability w) @
           fst (check_pipelines w) @
           fst (check_existing_knowledge_bases w) @
           print_summary w \<lparr>embedding_service = emb, llm_service = llm, rag_anything_lib = rag,
             lightrag_lib = light, pipelines = pipes, knowledge_bases = kbs\<rparr> @
           print_recommendations \<lparr>embedding_service = emb, llm_service = llm,
             rag_anything_lib = rag, lightrag_lib = light, pipelines = pipes,
             knowledge_bases = kbs\<rparr> @
           (if kbs \<noteq> [] \<and> rag
            then Header txt_search_header #
                   fst (test_pipeline_search w ''raganything'' (Some (hd kbs)))
            else [])"
    and "snd (main w) =
           (if kbs \<noteq> [] \<and> rag
            then (case snd (test_pipeline_search w ''raganything'' (Some (hd kbs))) of
                    Inl e \<Rightarrow> Inl e | Inr b \<Rightarrow> Inr ())
            else Inr ())"
  using assms
  by (simp_all add: main_def run_simps Let_def split: sum.splits)

lemma main_aborted_headers:
  "header_texts (fst (main w)) =
     txt_env_header # txt_embedding_header #
     (case snd (check_embedding_service w) of Inl e \<Rightarrow> [] | Inr emb \<Rightarrow>
      txt_llm_header #
     (case snd (check_llm_service w) of Inl e \<Rightarrow> [] | Inr llm \<Rightarrow>
      txt_raganything_header #
     (case snd (check_rag_anything_availability w) of Inl e \<Rightarrow> [] | Inr rag \<Rightarrow>
      txt_lightrag_header #
     (case snd (check_lightrag_availability w) of Inl e \<Rightarrow> [] | Inr light \<Rightarrow>
      txt_pipelines_header #
     (case snd (check_pipelines w) of Inl e \<Rightarrow> [] | Inr pipes \<Rightarrow>
      txt_kb_header #
     (case snd (check_existing_knowledge_bases w) of Inl e \<Rightarrow> [] | Inr kbs \<Rightarrow>
      txt_summary_header # txt_recommendations_header #
      (if kbs \<noteq> [] \<and> rag then [txt_search_header] else [])))))))"
  by (simp add: main_def run_simps Let_def env_headers embedding_headers llm_headers
      raganything_headers lightrag_headers pipelines_headers kb_headers summary_headers
      recommendations_headers search_step_headers split: sum.splits)


lemma snd_embedding:
  "snd (check_embedding_service w) =
     (case import_embedding w of
        Some e \<Rightarrow> if is_Exception e then Inr False else Inl e
      | None \<Rightarrow> (case get_embedding_client w of
                   Inl e \<Rightarrow> if is_Exception e then Inr False else Inl e
                 | Inr client \<Rightarrow> Inr True))"
  by (simp add: check_embedding_service_def run_simps split: option.splits sum.splits)

lemma snd_llm:
  "snd (check_llm_service w) =
     (case import_llm w of
        Some e \<Rightarrow> if is_Exception e then Inr False else Inl e
      | None \<Rightarrow> (case get_llm_config w of
                   Inl e \<Rightarrow> if is_Exception e then Inr False else Inl e
                 | Inr config \<Rightarrow> Inr True))"
  by (simp add: check_llm_service_def run_simps split: option.splits sum.splits)

lemma snd_raganything:
  "snd (check_rag_anything_availability w) =
     (case import_raganything w of
        Some e \<Rightarrow> if is_ImportError e then Inr False else Inl e
      | None \<Rightarrow> Inr True)"
  by (simp add: check_rag_anything_availability_def run_simps split: option.splits)

lemma snd_lightrag:
  "snd (check_lightrag_availability w) =
     (case import_lightrag w of
        Some e \<Rightarrow> if is_ImportError e then Inr False else Inl e
      | None \<Rightarrow> Inr True)"
  by (simp add: check_lightrag_availability_def run_simps split: option.splits)

lemma snd_kbs:
  "snd (check_existing_knowledge_bases w) =
     (if \<not> kb_base_exists w then Inr []
      else (case kb_base_iterdir w of
              Inl e \<Rightarrow> Inl e
            | Inr entries \<Rightarrow> Inr [d_name d. d \<leftarrow> entries, is_dir d \<and> kb_status d \<noteq> []]))"
proof (cases "kb_base_exists w")
  case False
  then show ?thesis
    by (simp add: check_existing_knowledge_bases_def run_simps)
next
  case True
  show ?thesis
  proof (cases "kb_base_iterdir w")
    case (Inl e)
    with True show ?thesis
      by (simp add: check_existing_knowledge_bases_def run_simps)
  next
    case (Inr entries)
    with True scan_result [OF True Inr] show ?thesis
      by simp
  qed
qed

lemma raganything_flag:
  "snd (check_rag_anything_availability w) = Inr rag \<Longrightarrow> rag \<longleftrightarrow> import_raganything w = None"
  by (auto simp: snd_raganything split: option.splits if_splits)

lemma main_search_calls:
  assumes "snd (check_embedding_service w) = Inr emb"
    and "snd (check_llm_service w) = Inr llm"
    and "snd (check_rag_anything_availability w) = Inr rag"
    and "snd (check_lightrag_availability w) = Inr light"
    and "snd (check_pipelines w) = Inr pipes"
    and "snd (check_existing_knowledge_bases w) = Inr kbs"
  shows "search_calls (fst (main w)) =
           (if kbs \<noteq> [] \<and> import_raganything w = None \<and> import_rag_tool w = None
            then [Search search_query (hd kbs) ''naive'' ''raganything''] else [])"
proof -
  have factory: "import_factory w = None"
    using assms(5) by (simp add: snd_check_pipelines split: option.splits)
  have rag: "rag \<longleftrightarrow> import_raganything w = None"
    using assms(3) by (rule raganything_flag)
  show ?thesis
    unfolding main_complete(1) [OF assms]
    by (simp add: search_calls_Cons env_searches embedding_searches llm_searches
        raganything_searches lightrag_searches pipelines_searches kb_searches summary_searches
        recommendations_searches search_step_calls factory rag)
qed

lemma header_order_distinct: "distinct header_order"
  by (simp add: header_order_def txt_env_header_def txt_embedding_header_def txt_llm_header_def
      txt_raganything_header_def txt_lightrag_header_def txt_pipelines_header_def
      txt_kb_header_def txt_summary_header_def txt_recommendations_header_def
      txt_search_header_def)

lemma main_result:
  "snd (main w) =
     (case snd (check_embedding_service w) of Inl e \<Rightarrow> Inl e | Inr emb \<Rightarrow>
     (case snd (check_llm_service w) of Inl e \<Rightarrow> Inl e | Inr llm \<Rightarrow>
     (case snd (check_rag_anything_availability w) of Inl e \<Rightarrow> Inl e | Inr rag \<Rightarrow>
     (case snd (check_lightrag_availability w) of Inl e \<Rightarrow> Inl e | Inr light \<Rightarrow>
     (case snd (check_pipelines w) of Inl e \<Rightarrow> Inl e | Inr pipes \<Rightarrow>
     (case snd (check_existing_knowledge_bases w) of Inl e \<Rightarrow> Inl e | Inr kbs \<Rightarrow>
      (if kbs \<noteq> [] \<and> rag
       then (case snd (test_pipeline_search w ''raganything'' (Some (hd kbs))) of
               Inl e \<Rightarrow> Inl e | Inr b \<Rightarrow> Inr ())
       else Inr ())))))))"
  by (simp add: main_def run_simps Let_def split: sum.splits)

lemma snd_search_step:
  "snd (test_pipeline_search w pid (Some kb)) =
     (case import_rag_tool w of Some e \<Rightarrow> Inl e | None \<Rightarrow>
     (case import_factory w of Some e \<Rightarrow> Inl e | None \<Rightarrow>
     (case rag_search w search_query kb ''naive'' pid of
        Inl e \<Rightarrow> if is_Exception e then Inr False else Inl e
      | Inr r \<Rightarrow> Inr (case answer r of Some (c # cs) \<Rightarrow> True | _ \<Rightarrow> False))))"
  by (auto simp: test_pipeline_search_def find_kb_def run_simps Let_def
      split: sum.splits option.splits list.splits)

subsection \<open>Helper facts: the checks in the concrete world\<close>

lemma healthy_checks:
  "snd (check_embedding_service healthy) = Inr True"
  "snd (check_llm_service healthy) = Inr True"
  "snd (check_rag_anything_availability healthy) = Inr True"
  "snd (check_lightrag_availability healthy) = Inr True"
  "snd (check_pipelines healthy) =
     Inr [(''llamaindex'', ''available''), (''raganything'', ''error: no storage'')]"
  "snd (check_existing_knowledge_bases healthy) = Inr [''physics'', ''algebra'']"
proof -
  show "snd (check_embedding_service healthy) = Inr True"
    by (simp add: snd_embedding healthy_def)
  show "snd (check_llm_service healthy) = Inr True"
    by (simp add: snd_llm healthy_def)
  show "snd (check_rag_anything_availability healthy) = Inr True"
    by (simp add: snd_raganything healthy_def)
  show "snd (check_lightrag_availability healthy) = Inr True"
    by (simp add: snd_lightrag healthy_def)
  show "snd (check_pipelines healthy) =
     Inr [(''llamaindex'', ''available''), (''raganything'', ''error: no storage'')]"
    by (simp add: snd_check_pipelines snd_then_run snd_check_pipeline healthy_def)
  show "snd (check_existing_knowledge_bases healthy) = Inr [''physics'', ''algebra'']"
    by (simp add: snd_kbs healthy_def kb_status_def)
qed



lemma search_variant_checks:
  "snd (check_embedding_service (healthy\<lparr>import_rag_tool := t, rag_search := f\<rparr>)) = Inr True"
  "snd (check_llm_service (healthy\<lparr>import_rag_tool := t, rag_search := f\<rparr>)) = Inr True"
  "snd (check_rag_anything_availability (healthy\<lparr>import_rag_tool := t, rag_search := f\<rparr>))
     = Inr True"
  "snd (check_lightrag_availability (healthy\<lparr>import_rag_tool := t, rag_search := f\<rparr>))
     = Inr True"
  "snd (check_pipelines (healthy\<lparr>import_rag_tool := t, rag_search := f\<rparr>))
     = Inr [(''llamaindex'', ''available''), (''raganything'', ''error: no storage'')]"
  "snd (check_existing_knowledge_bases (healthy\<lparr>import_rag_tool := t, rag_search := f\<rparr>))
     = Inr (''physics'' # [''algebra''])"
proof -
  let ?w = "healthy\<lparr>import_rag_tool := t, rag_search := f\<rparr>"
  show "snd (check_embedding_service ?w) = Inr True"
    by (simp add: snd_embedding healthy_def)
  show "snd (check_llm_service ?w) = Inr True"
    by (simp add: snd_llm healthy_def)
  show "snd (check_rag_anything_availability ?w) = Inr True"
    by (simp add: snd_raganything healthy_def)
  show "snd (check_lightrag_availability ?w) = Inr True"
    by (simp add: snd_lightrag healthy_def)
  show "snd (check_pipelines ?w) =
     Inr [(''llamaindex'', ''available''), (''raganything'', ''error: no storage'')]"
    by (simp add: snd_check_pipelines snd_then_run snd_check_pipeline healthy_def)
  show "snd (check_existing_knowledge_bases ?w) = Inr (''physics'' # [''algebra''])"
    by (simp add: snd_kbs healthy_def kb_status_def)
qed

subsection \<open>The environment check\<close>

text \<open>
  Claim C2, as the code has it. A variable whose name contains \<^verbatim>\<open>KEY\<close> and whose value is
  set and not empty is printed masked: the first 8 characters, three dots and the last 4
  characters when the value has more than 12 characters, the placeholder \<^verbatim>\<open>***\<close>
  otherwise. This holds of the loop body for every variable name, and so of the line that
  the environment check prints for a variable of its list.
\<close>

theorem env_key_values_masked:
  assumes "sublist ''KEY'' var" and "environ w var = Some v" and "v \<noteq> []"
  shows "check_env_var (environ w) var dflt =
           Success (var @ '': '' @
             (if 12 < length v then take 8 v @ ''...'' @ drop (length v - 4) v else ''***''))
       \<and> ((var, dflt) \<in> set env_vars \<longrightarrow>
            Success (var @ '': '' @
              (if 12 < length v then take 8 v @ ''...'' @ drop (length v - 4) v else ''***''))
              \<in> set (check_environment w))"
proof -
  have line: "check_env_var (environ w) var dflt =
           Success (var @ '': '' @
             (if 12 < length v then take 8 v @ ''...'' @ drop (length v - 4) v else ''***''))"
    using assms by (simp add: check_env_var_def getenv_def truthy_def masked_def)
  show ?thesis
    using line env_line_in_report [of var dflt w] by auto
qed

theorem env_key_values_masked_witness:
  "sublist ''KEY'' ''OPENAI_API_KEY''
   \<and> check_env_var (environ (healthy\<lparr>environ := [''OPENAI_API_KEY'' \<mapsto> ''sk-1234567890abcdef'']\<rparr>))
        ''OPENAI_API_KEY'' None = Success ''OPENAI_API_KEY: sk-12345...cdef''
   \<and> Success ''OPENAI_API_KEY: sk-12345...cdef''
        \<in> set (check_environment (healthy\<lparr>environ := [''OPENAI_API_KEY'' \<mapsto> ''sk-1234567890abcdef'']\<rparr>))"
proof -
  have key: "sublist ''KEY'' ''OPENAI_API_KEY''"
    by (simp add: sublist_code(3))
  have listed: "(''OPENAI_API_KEY'', None) \<in> set env_vars"
    by (simp add: env_vars_def)
  show ?thesis
    using key listed
      env_key_values_masked [OF key, of "healthy\<lparr>environ := [''OPENAI_API_KEY'' \<mapsto> ''sk-1234567890abcdef'']\<rparr>"
        "''sk-1234567890abcdef''" None]
    by simp
qed

text \<open>
  Claim C2 as it is worded covers every value that is set, the empty string among them
  (``any shorter value''). With \<^verbatim>\<open>OPENAI_API_KEY\<close> set to the empty string the test
  \<^verbatim>\<open>if value\<close> fails: the line printed for the variable is the warning that it is not set,
  and the placeholder \<^verbatim>\<open>***\<close> is not printed.
\<close>

theorem env_key_empty_value_not_masked:
  "sublist ''KEY'' ''OPENAI_API_KEY''
   \<and> environ (healthy\<lparr>environ := [''OPENAI_API_KEY'' \<mapsto> []]\<rparr>) ''OPENAI_API_KEY'' = Some []
   \<and> length ([] :: string) \<le> 12
   \<and> check_env_var (environ (healthy\<lparr>environ := [''OPENAI_API_KEY'' \<mapsto> []]\<rparr>))
        ''OPENAI_API_KEY'' None = Warning (txt_not_set ''OPENAI_API_KEY'')
   \<and> Success ''OPENAI_API_KEY: ***''
        \<notin> set (check_environment (healthy\<lparr>environ := [''OPENAI_API_KEY'' \<mapsto> []]\<rparr>))"
proof -
  have key: "sublist ''KEY'' ''OPENAI_API_KEY''"
    by (simp add: sublist_code(3))
  have line: "check_env_var [''OPENAI_API_KEY'' \<mapsto> []] ''OPENAI_API_KEY'' None =
      Warning (txt_not_set ''OPENAI_API_KEY'')"
    by (rule env_var_empty) simp
  have report: "Success ''OPENAI_API_KEY: ***''
        \<notin> set (check_environment (healthy\<lparr>environ := [''OPENAI_API_KEY'' \<mapsto> []]\<rparr>))"
    by (simp add: env_report_lines check_env_var_def getenv_def truthy_def Let_def
        sublist_code(3))
  show ?thesis
    using key line report by simp
qed

text \<open>
  Claim C3, as the code has it. Of the five variables that the environment check reads,
  \<^verbatim>\<open>RAG_PROVIDER\<close> has the default \<^verbatim>\<open>raganything\<close> and the other four have none. A variable
  that is absent and has no default is reported as not set (a warning); the absent
  \<^verbatim>\<open>RAG_PROVIDER\<close> is printed with its default; a variable set to a value that is not empty
  is printed with that value, or, when its name contains \<^verbatim>\<open>KEY\<close>, with the first 8
  characters, three dots and the last 4 characters of a value longer than 12 characters
  and with \<^verbatim>\<open>***\<close> for a shorter one.
\<close>

theorem env_report:
  assumes "var \<in> set [''RAG_PROVIDER'', ''OPENAI_API_KEY'', ''OPENAI_BASE_URL'', ''LLM_MODEL'',
                        ''EMBEDDING_MODEL'']"
  shows "(environ w var = None \<and> var \<noteq> ''RAG_PROVIDER'' \<longrightarrow>
            Warning (txt_not_set var) \<in> set (check_environment w))
       \<and> (environ w var = None \<and> var = ''RAG_PROVIDER'' \<longrightarrow>
            Success ''RAG_PROVIDER: raganything'' \<in> set (check_environment w))
       \<and> (\<forall>v. environ w var = Some v \<and> v \<noteq> [] \<longrightarrow>
            Success (var @ '': '' @
               (if sublist ''KEY'' var
                then (if 12 < length v then take 8 v @ ''...'' @ drop (length v - 4) v
                      else ''***'')
                else v))
              \<in> set (check_environment w))"
proof -
  define dflt where dflt: "dflt = (if var = ''RAG_PROVIDER'' then Some ''raganything'' else None)"
  have listed: "(var, dflt) \<in> set env_vars"
    unfolding dflt using assms by (rule env_listed)
  have line: "check_env_var (environ w) var dflt \<in> set (check_environment w)"
    using listed by (rule env_line_in_report)
  have a: "Warning (txt_not_set var) \<in> set (check_environment w)"
    if "environ w var = None" and "var \<noteq> ''RAG_PROVIDER''"
    using line that dflt by (simp add: env_var_absent)
  have b: "Success ''RAG_PROVIDER: raganything'' \<in> set (check_environment w)"
    if "environ w var = None" and "var = ''RAG_PROVIDER''"
    using line that dflt env_var_default [of "environ w" "''RAG_PROVIDER''" "''raganything''"]
      rag_provider_no_key by simp
  have c: "Success (var @ '': '' @
               (if sublist ''KEY'' var
                then (if 12 < length v then take 8 v @ ''...'' @ drop (length v - 4) v
                      else ''***'')
                else v))
              \<in> set (check_environment w)"
    if "environ w var = Some v" and "v \<noteq> []" for v
  proof -
    have "check_env_var (environ w) var dflt =
            Success (var @ '': '' @
               (if sublist ''KEY'' var
                then (if 12 < length v then take 8 v @ ''...'' @ drop (length v - 4) v
                      else ''***'')
                else v))"
      using that by (simp add: check_env_var_def getenv_def truthy_def masked_def)
    with line show ?thesis
      by simp
  qed
  show ?thesis
    using a b c by blast
qed

theorem env_report_witness:
  "''LLM_MODEL'' \<in> set [''RAG_PROVIDER'', ''OPENAI_API_KEY'', ''OPENAI_BASE_URL'', ''LLM_MODEL'',
                            ''EMBEDDING_MODEL'']
   \<and> Warning (txt_not_set ''OPENAI_BASE_URL'') \<in> set (check_environment healthy)
   \<and> Success ''RAG_PROVIDER: raganything'' \<in> set (check_environment healthy)
   \<and> Success ''LLM_MODEL: gpt-4o'' \<in> set (check_environment healthy)
   \<and> Success ''OPENAI_API_KEY: sk-12345...cdef'' \<in> set (check_environment healthy)
   \<and> Success ''OPENAI_API_KEY: ***''
        \<in> set (check_environment (healthy\<lparr>environ := [''OPENAI_API_KEY'' \<mapsto> ''sk-123456789'']\<rparr>))"
proof -
  have e1: "environ healthy ''OPENAI_BASE_URL'' = None"
    and e2: "environ healthy ''RAG_PROVIDER'' = None"
    and e3: "environ healthy ''LLM_MODEL'' = Some ''gpt-4o''"
    and e4: "environ healthy ''OPENAI_API_KEY'' = Some ''sk-1234567890abcdef''"
    by (simp_all add: healthy_def)
  have k3: "\<not> sublist ''KEY'' ''LLM_MODEL''" and k4: "sublist ''KEY'' ''OPENAI_API_KEY''"
    by (simp_all add: sublist_code(3))
  have short: "Success ''OPENAI_API_KEY: ***''
        \<in> set (check_environment (healthy\<lparr>environ := [''OPENAI_API_KEY'' \<mapsto> ''sk-123456789'']\<rparr>))"
    using env_report [of "''OPENAI_API_KEY''"
        "healthy\<lparr>environ := [''OPENAI_API_KEY'' \<mapsto> ''sk-123456789'']\<rparr>"] k4
    by simp
  show ?thesis
    using env_report [of "''OPENAI_BASE_URL''" healthy] env_report [of "''RAG_PROVIDER''" healthy]
      env_report [of "''LLM_MODEL''" healthy] env_report [of "''OPENAI_API_KEY''" healthy]
      e1 e2 e3 e4 k3 k4 short
    by simp
qed

text \<open>
  Claim C3 as it is worded promises the value, or its masked form, for every variable that
  is set. With \<^verbatim>\<open>OPENAI_API_KEY\<close> and \<^verbatim>\<open>LLM_MODEL\<close> both set to the empty string the report
  has the not-set warning for each of them and no line with a value or a mask: the whole
  report is the header, the default of \<^verbatim>\<open>RAG_PROVIDER\<close> and four warnings.
\<close>

theorem env_report_empty_values:
  "environ (healthy\<lparr>environ := [''OPENAI_API_KEY'' \<mapsto> [], ''LLM_MODEL'' \<mapsto> []]\<rparr>)
     ''OPENAI_API_KEY'' = Some []
   \<and> environ (healthy\<lparr>environ := [''OPENAI_API_KEY'' \<mapsto> [], ''LLM_MODEL'' \<mapsto> []]\<rparr>)
     ''LLM_MODEL'' = Some []
   \<and> check_environment (healthy\<lparr>environ := [''OPENAI_API_KEY'' \<mapsto> [], ''LLM_MODEL'' \<mapsto> []]\<rparr>) =
       [Header txt_env_header,
        Success ''RAG_PROVIDER: raganything'',
        Warning (txt_not_set ''OPENAI_API_KEY''),
        Warning (txt_not_set ''OPENAI_BASE_URL''),
        Warning (txt_not_set ''LLM_MODEL''),
        Warning (txt_not_set ''EMBEDDING_MODEL'')]"
  by (simp add: env_report_lines check_env_var_def getenv_def truthy_def Let_def
      sublist_code(3))

text \<open>
  Claim C9. A variable of the five that is present in the environment with the empty string
  as its value is reported as not set, with the warning an absent variable without default
  gets, whatever its default: \<^verbatim>\<open>os.getenv\<close> returns the empty string, which the test
  \<^verbatim>\<open>if value\<close> takes for false.
\<close>

theorem env_empty_value_not_set:
  assumes "var \<in> set [''RAG_PROVIDER'', ''OPENAI_API_KEY'', ''OPENAI_BASE_URL'', ''LLM_MODEL'',
                        ''EMBEDDING_MODEL'']"
    and "environ w var = Some []"
  shows "Warning (txt_not_set var) \<in> set (check_environment w)
       \<and> (\<forall>dflt. check_env_var (environ w) var dflt = Warning (txt_not_set var))
       \<and> check_env_var Map.empty var None = Warning (txt_not_set var)"
proof -
  have "check_env_var (environ w) var (if var = ''RAG_PROVIDER'' then Some ''raganything'' else None)
          \<in> set (check_environment w)"
    using env_listed [OF assms(1)] by (rule env_line_in_report)
  moreover have "check_env_var (environ w) var dflt = Warning (txt_not_set var)" for dflt
    using assms(2) by (rule env_var_empty)
  moreover have "check_env_var Map.empty var None = Warning (txt_not_set var)"
    by (rule env_var_absent) simp
  ultimately show ?thesis
    by simp
qed

theorem env_empty_value_not_set_witness:
  "''RAG_PROVIDER'' \<in> set [''RAG_PROVIDER'', ''OPENAI_API_KEY'', ''OPENAI_BASE_URL'', ''LLM_MODEL'',
                               ''EMBEDDING_MODEL'']
   \<and> environ (healthy\<lparr>environ := [''RAG_PROVIDER'' \<mapsto> []]\<rparr>) ''RAG_PROVIDER'' = Some []
   \<and> Warning (txt_not_set ''RAG_PROVIDER'')
        \<in> set (check_environment (healthy\<lparr>environ := [''RAG_PROVIDER'' \<mapsto> []]\<rparr>))
   \<and> check_env_var [''RAG_PROVIDER'' \<mapsto> []] ''RAG_PROVIDER'' (Some ''raganything'') =
        check_env_var Map.empty ''RAG_PROVIDER'' None"
  using env_empty_value_not_set [of "''RAG_PROVIDER''" "healthy\<lparr>environ := [''RAG_PROVIDER'' \<mapsto> []]\<rparr>"]
  by simp

subsection \<open>The knowledge-base scan\<close>

text \<open>
  Claim C4. When the knowledge-base root exists and can be listed (its entries have
  distinct names, as the entries of a directory do), the scan treats every subdirectory
  as follows. If at least one of \<^verbatim>\<open>rag_storage\<close>, \<^verbatim>\<open>content_list\<close>, \<^verbatim>\<open>numbered_items.json\<close>
  exists, it prints the directory as found with exactly the labels of the markers that
  exist, in that order (with \<^verbatim>\<open>content_list\<close> alone the line is the name followed by
  \<^verbatim>\<open>: content_list\<close>), does not mark it empty, and returns its name in the list. If none
  exists, it marks the directory empty and leaves its name out of the returned list.
\<close>

theorem kb_scan_report:
  assumes root: "kb_base_exists w" and listing: "kb_base_iterdir w = Inr entries"
    and names: "distinct (map d_name entries)"
    and d: "d \<in> set entries" and dir: "is_dir d"
  shows "(has_rag_storage d \<or> has_content_list d \<or> has_numbered_items d \<longrightarrow>
            Success (d_name d @ '': '' @
                join '', '' (map fst (filter snd [(''rag_storage'', has_rag_storage d),
                                                   (''content_list'', has_content_list d),
                                                   (''numbered_items'', has_numbered_items d)])))
              \<in> set (fst (check_existing_knowledge_bases w))
          \<and> Warning (txt_kb_empty (d_name d)) \<notin> set (fst (check_existing_knowledge_bases w))
          \<and> (\<exists>kbs. snd (check_existing_knowledge_bases w) = Inr kbs \<and> d_name d \<in> set kbs))
       \<and> (\<not> has_rag_storage d \<and> has_content_list d \<and> \<not> has_numbered_items d \<longrightarrow>
            Success (d_name d @ '': content_list'')
              \<in> set (fst (check_existing_knowledge_bases w)))
       \<and> (\<not> has_rag_storage d \<and> \<not> has_content_list d \<and> \<not> has_numbered_items d \<longrightarrow>
            Warning (txt_kb_empty (d_name d)) \<in> set (fst (check_existing_knowledge_bases w))
          \<and> (\<exists>kbs. snd (check_existing_knowledge_bases w) = Inr kbs \<and> d_name d \<notin> set kbs))"
proof -
  let ?out = "fst (check_existing_knowledge_bases w)"
  define K where "K = [d_name d. d \<leftarrow> entries, is_dir d \<and> kb_status d \<noteq> []]"
  have res: "snd (check_existing_knowledge_bases w) = Inr K"
    unfolding K_def by (rule scan_result [OF root listing])
  have mem: "d_name d \<in> set K \<longleftrightarrow> kb_status d \<noteq> []"
    unfolding K_def by (rule scan_names_mem [OF names d dir])
  have labels: "map fst (filter snd [(''rag_storage'', has_rag_storage d),
                                      (''content_list'', has_content_list d),
                                      (''numbered_items'', has_numbered_items d)]) = kb_status d"
    by (simp add: kb_status_labels)
  have c1: "Success (d_name d @ '': '' @ join '', '' (kb_status d)) \<in> set ?out
          \<and> Warning (txt_kb_empty (d_name d)) \<notin> set ?out
          \<and> (\<exists>kbs. snd (check_existing_knowledge_bases w) = Inr kbs \<and> d_name d \<in> set kbs)"
    if "has_rag_storage d \<or> has_content_list d \<or> has_numbered_items d"
  proof -
    have st: "kb_status d \<noteq> []"
      using that by (simp add: kb_status_empty)
    show ?thesis
      using scan_found [OF root listing names d dir st] res mem st by simp
  qed
  have c2: "Success (d_name d @ '': content_list'') \<in> set ?out"
    if "\<not> has_rag_storage d \<and> has_content_list d \<and> \<not> has_numbered_items d"
  proof -
    have st: "kb_status d = [''content_list'']"
      using that by (simp add: kb_status_def)
    then have "kb_status d \<noteq> []"
      by simp
    from scan_found [OF root listing names d dir this] show ?thesis
      by (simp add: st)
  qed
  have c3: "Warning (txt_kb_empty (d_name d)) \<in> set ?out
          \<and> (\<exists>kbs. snd (check_existing_knowledge_bases w) = Inr kbs \<and> d_name d \<notin> set kbs)"
    if "\<not> has_rag_storage d \<and> \<not> has_content_list d \<and> \<not> has_numbered_items d"
  proof -
    have st: "kb_status d = []"
      using that by (simp add: kb_status_empty)
    show ?thesis
      using scan_empty [OF root listing d dir st] res mem st by simp
  qed
  show ?thesis
    unfolding labels using c1 c2 c3 by blast
qed

theorem kb_scan_report_witness:
  "kb_base_exists healthy
   \<and> Success ''physics: content_list'' \<in> set (fst (check_existing_knowledge_bases healthy))
   \<and> Warning (txt_kb_empty ''physics'') \<notin> set (fst (check_existing_knowledge_bases healthy))
   \<and> Success ''algebra: rag_storage, numbered_items''
        \<in> set (fst (check_existing_knowledge_bases healthy))
   \<and> Warning (txt_kb_empty ''drafts'') \<in> set (fst (check_existing_knowledge_bases healthy))
   \<and> snd (check_existing_knowledge_bases healthy) = Inr [''physics'', ''algebra'']"
proof -
  define readme where "readme = \<lparr>d_name = ''notes.txt'', is_dir = False, has_rag_storage = False,
    has_content_list = False, has_numbered_items = False\<rparr>"
  define drafts where "drafts = \<lparr>d_name = ''drafts'', is_dir = True, has_rag_storage = False,
    has_content_list = False, has_numbered_items = False\<rparr>"
  define physics where "physics = \<lparr>d_name = ''physics'', is_dir = True, has_rag_storage = False,
    has_content_list = True, has_numbered_items = False\<rparr>"
  define algebra where "algebra = \<lparr>d_name = ''algebra'', is_dir = True, has_rag_storage = True,
    has_content_list = False, has_numbered_items = True\<rparr>"
  note entry_defs = readme_def drafts_def physics_def algebra_def
  have root: "kb_base_exists healthy"
    by (simp add: healthy_def)
  have listing: "kb_base_iterdir healthy = Inr [readme, drafts, physics, algebra]"
    by (simp add: healthy_def entry_defs)
  have names: "distinct (map d_name [readme, drafts, physics, algebra])"
    by (simp add: entry_defs)
  have p: "Success ''physics: content_list'' \<in> set (fst (check_existing_knowledge_bases healthy))
      \<and> Warning (txt_kb_empty ''physics'') \<notin> set (fst (check_existing_knowledge_bases healthy))"
    using kb_scan_report [OF root listing names, of physics] by (simp add: physics_def)
  have a: "Success ''algebra: rag_storage, numbered_items''
        \<in> set (fst (check_existing_knowledge_bases healthy))"
    using kb_scan_report [OF root listing names, of algebra] by (simp add: algebra_def)
  have d: "Warning (txt_kb_empty ''drafts'') \<in> set (fst (check_existing_knowledge_bases healthy))"
    using kb_scan_report [OF root listing names, of drafts] by (simp add: drafts_def)
  have r: "snd (check_existing_knowledge_bases healthy) = Inr [''physics'', ''algebra'']"
    using scan_result [OF root listing] by (simp add: entry_defs kb_status_def)
  show ?thesis
    using root p a d r by simp
qed

subsection \<open>The pipeline check\<close>

text \<open>
  Claim C7. When the registry lists no pipeline, the pipeline check prints its header and
  the count \<^verbatim>\<open>0\<close> and returns the empty mapping. Whatever the registry lists, every entry
  of a mapping that the check returns belongs to a listed pipeline, and its value is
  \<^verbatim>\<open>available\<close> when that pipeline could be built, or the text \<^verbatim>\<open>error: \<close> followed by
  the message of the exception that its construction raised.
\<close>

theorem pipelines_result:
  "(import_factory w = None \<and> list_pipelines w = Inr [] \<longrightarrow>
      check_pipelines w = ([Header txt_pipelines_header, Info (txt_registered ''0'')], Inr []))
   \<and> (\<forall>results pid v.
        snd (check_pipelines w) = Inr results \<and> (pid, v) \<in> set results \<longrightarrow>
          (\<exists>ps. list_pipelines w = Inr ps \<and> pid \<in> p_id ` set ps)
        \<and> ((v = ''available'' \<and> (\<exists>p. get_pipeline w pid = Inr p))
           \<or> (\<exists>e. get_pipeline w pid = Inl e \<and> v = ''error: '' @ exn_str e
                  \<and> prefix ''error'' v)))"
proof (intro conjI allI impI)
  assume "import_factory w = None \<and> list_pipelines w = Inr []"
  then show "check_pipelines w = ([Header txt_pipelines_header, Info (txt_registered ''0'')], Inr [])"
    by (simp add: check_pipelines_def prod_eq_iff run_simps str_nat_0)
next
  fix results pid v
  assume a: "snd (check_pipelines w) = Inr results \<and> (pid, v) \<in> set results"
  then obtain ps where ps: "list_pipelines w = Inr ps"
    and loop: "snd (check_pipelines_loop w ps []) = Inr results"
    by (auto simp: snd_check_pipelines split: option.splits sum.splits)
  have "pid \<in> fst ` set results"
    using a by force
  then show "\<exists>ps. list_pipelines w = Inr ps \<and> pid \<in> p_id ` set ps"
    using ps pipelines_loop_keys [OF loop] by simp
  have "(v = ''available'' \<and> (\<exists>p. get_pipeline w pid = Inr p))
       \<or> (\<exists>e. get_pipeline w pid = Inl e \<and> v = ''error: '' @ exn_str e)"
    using pipelines_loop_values [OF loop _ conjunct2 [OF a]] by simp
  then show "(v = ''available'' \<and> (\<exists>p. get_pipeline w pid = Inr p))
           \<or> (\<exists>e. get_pipeline w pid = Inl e \<and> v = ''error: '' @ exn_str e
                  \<and> prefix ''error'' v)"
    by auto
qed

theorem pipelines_result_witness:
  "import_factory (healthy\<lparr>list_pipelines := Inr []\<rparr>) = None
   \<and> list_pipelines (healthy\<lparr>list_pipelines := Inr []\<rparr>) = Inr []
   \<and> check_pipelines (healthy\<lparr>list_pipelines := Inr []\<rparr>) =
        ([Header txt_pipelines_header, Info (txt_registered ''0'')], Inr [])
   \<and> snd (check_pipelines healthy) =
        Inr [(''llamaindex'', ''available''), (''raganything'', ''error: no storage'')]
   \<and> (\<exists>p. get_pipeline healthy ''llamaindex'' = Inr p)
   \<and> (\<exists>e. get_pipeline healthy ''raganything'' = Inl e
          \<and> ''error: no storage'' = ''error: '' @ exn_str e)"
proof -
  have z: "import_factory (healthy\<lparr>list_pipelines := Inr []\<rparr>) = None
      \<and> list_pipelines (healthy\<lparr>list_pipelines := Inr []\<rparr>) = Inr []"
    by (simp add: healthy_def)
  have zero: "check_pipelines (healthy\<lparr>list_pipelines := Inr []\<rparr>) =
        ([Header txt_pipelines_header, Info (txt_registered ''0'')], Inr [])"
    using pipelines_result [of "healthy\<lparr>list_pipelines := Inr []\<rparr>"] z by blast
  have r: "snd (check_pipelines healthy) =
        Inr [(''llamaindex'', ''available''), (''raganything'', ''error: no storage'')]"
    by (simp add: snd_check_pipelines snd_then_run snd_check_pipeline healthy_def)
  have "(''llamaindex'', ''available'')
          \<in> set [(''llamaindex'', ''available''), (''raganything'', ''error: no storage'')]"
    by simp
  with r pipelines_result [of healthy]
  have a: "(''available'' = ''available'' \<and> (\<exists>p. get_pipeline healthy ''llamaindex'' = Inr p))
      \<or> (\<exists>e. get_pipeline healthy ''llamaindex'' = Inl e \<and> ''available'' = ''error: '' @ exn_str e
             \<and> prefix ''error'' ''available'')"
    by blast
  have "(''raganything'', ''error: no storage'')
          \<in> set [(''llamaindex'', ''available''), (''raganything'', ''error: no storage'')]"
    by simp
  with r pipelines_result [of healthy]
  have b: "(''error: no storage'' = ''available'' \<and> (\<exists>p. get_pipeline healthy ''raganything'' = Inr p))
      \<or> (\<exists>e. get_pipeline healthy ''raganything'' = Inl e
             \<and> ''error: no storage'' = ''error: '' @ exn_str e
             \<and> prefix ''error'' ''error: no storage'')"
    by blast
  show ?thesis
    using z zero r a b by auto
qed

subsection \<open>The order of the checks\<close>

text \<open>
  Claim C8. In every run the checks execute in one fixed order: the environment check, the
  embedding-service check, the LLM-service check, the two library checks (RAG-Anything,
  then LightRAG), the pipeline check, the knowledge-base scan, the summary, the
  recommendations and, when its condition holds, the live search. Every check prints its
  own header first and the ten headers are distinct, so the order shows in the headers of
  the run: they are always an initial segment of the fixed order (a run that an exception
  ends early stops inside one check and starts no later one). When each check returns,
  the output of the run is the output of the checks one after the other in that order,
  with the search step last and only under its condition.
\<close>

theorem checks_run_in_order:
  "prefix (header_texts (fst (main w))) header_order
   \<and> distinct header_order
   \<and> (\<forall>emb llm rag light pipes kbs.
        snd (check_embedding_service w) = Inr emb \<and>
        snd (check_llm_service w) = Inr llm \<and>
        snd (check_rag_anything_availability w) = Inr rag \<and>
        snd (check_lightrag_availability w) = Inr light \<and>
        snd (check_pipelines w) = Inr pipes \<and>
        snd (check_existing_knowledge_bases w) = Inr kbs \<longrightarrow>
        fst (main w) =
           [Print txt_banner, Print (txt_project_root (project_root w))] @
           check_environment w @
           fst (check_embedding_service w) @
           fst (check_llm_service w) @
           fst (check_rag_anything_availability w) @
           fst (check_lightrag_availability w) @
           fst (check_pipelines w) @
           fst (check_existing_knowledge_bases w) @
           print_summary w \<lparr>embedding_service = emb, llm_service = llm, rag_anything_lib = rag,
             lightrag_lib = light, pipelines = pipes, knowledge_bases = kbs\<rparr> @
           print_recommendations \<lparr>embedding_service = emb, llm_service = llm,
             rag_anything_lib = rag, lightrag_lib = light, pipelines = pipes,
             knowledge_bases = kbs\<rparr> @
           (if kbs \<noteq> [] \<and> rag
            then Header txt_search_header #
                   fst (test_pipeline_search w ''raganything'' (Some (hd kbs)))
            else [])
        \<and> header_texts (fst (main w)) =
             take 9 header_order @ (if kbs \<noteq> [] \<and> rag then [txt_search_header] else []))"
proof (intro conjI allI impI)
  show "prefix (header_texts (fst (main w))) header_order"
    unfolding main_aborted_headers header_order_def
    by (simp split: sum.splits)
  show "distinct header_order"
    by (rule header_order_distinct)
next
  fix emb llm rag light pipes kbs
  assume a: "snd (check_embedding_service w) = Inr emb \<and>
        snd (check_llm_service w) = Inr llm \<and>
        snd (check_rag_anything_availability w) = Inr rag \<and>
        snd (check_lightrag_availability w) = Inr light \<and>
        snd (check_pipelines w) = Inr pipes \<and>
        snd (check_existing_knowledge_bases w) = Inr kbs"
  then have r: "snd (check_embedding_service w) = Inr emb" "snd (check_llm_service w) = Inr llm"
    "snd (check_rag_anything_availability w) = Inr rag"
    "snd (check_lightrag_availability w) = Inr light" "snd (check_pipelines w) = Inr pipes"
    "snd (check_existing_knowledge_bases w) = Inr kbs"
    by simp_all
  show "fst (main w) =
           [Print txt_banner, Print (txt_project_root (project_root w))] @
           check_environment w @
           fst (check_embedding_service w) @
           fst (check_llm_service w) @
           fst (check_rag_anything_availability w) @
           fst (check_lightrag_availability w) @
           fst (check_pipelines w) @
           fst (check_existing_knowledge_bases w) @
           print_summary w \<lparr>embedding_service = emb, llm_service = llm, rag_anything_lib = rag,
             lightrag_lib = light, pipelines = pipes, knowledge_bases = kbs\<rparr> @
           print_recommendations \<lparr>embedding_service = emb, llm_service = llm,
             rag_anything_lib = rag, lightrag_lib = light, pipelines = pipes,
             knowledge_bases = kbs\<rparr> @
           (if kbs \<noteq> [] \<and> rag
            then Header txt_search_header #
                   fst (test_pipeline_search w ''raganything'' (Some (hd kbs)))
            else [])"
    by (rule main_complete(1) [OF r])
  show "header_texts (fst (main w)) =
          take 9 header_order @ (if kbs \<noteq> [] \<and> rag then [txt_search_header] else [])"
    unfolding main_aborted_headers header_order_def
    by (simp add: r)
qed

theorem checks_run_in_order_witness:
  "snd (check_embedding_service healthy) = Inr True
   \<and> snd (check_llm_service healthy) = Inr True
   \<and> snd (check_rag_anything_availability healthy) = Inr True
   \<and> snd (check_lightrag_availability healthy) = Inr True
   \<and> snd (check_pipelines healthy) =
        Inr [(''llamaindex'', ''available''), (''raganything'', ''error: no storage'')]
   \<and> snd (check_existing_knowledge_bases healthy) = Inr [''physics'', ''algebra'']
   \<and> header_texts (fst (main healthy)) = header_order
   \<and> prefix (header_texts (fst (main (healthy\<lparr>list_pipelines :=
          Inl (OtherException ''registry unavailable'')\<rparr>)))) header_order"
proof -
  have "header_texts (fst (main healthy)) =
          take 9 header_order @
          (if [''physics'', ''algebra''] \<noteq> [] \<and> True then [txt_search_header] else [])"
    using checks_run_in_order [of healthy] healthy_checks by blast
  then have full: "header_texts (fst (main healthy)) = header_order"
    by (simp add: header_order_def)
  have cut: "prefix (header_texts (fst (main (healthy\<lparr>list_pipelines :=
          Inl (OtherException ''registry unavailable'')\<rparr>)))) header_order"
    using checks_run_in_order [of "healthy\<lparr>list_pipelines :=
          Inl (OtherException ''registry unavailable'')\<rparr>"] by blast
  show ?thesis
    using healthy_checks full cut by simp
qed

subsection \<open>The live search\<close>




text \<open>
  Claim C5. When the live search step has issued its search call and the call returns a
  result whose answer is the empty string, the step prints the warning for an empty
  result as its last line and no error line, and returns false. The run of \<^verbatim>\<open>main\<close> that
  reached the step (every check returned, the scan found the knowledge base and
  \<^verbatim>\<open>raganything\<close> was imported) then ends normally, with that warning as its last line.
\<close>

theorem empty_answer_is_warning:
  assumes "Search search_query kb ''naive'' pid \<in> set (fst (test_pipeline_search w pid (Some kb)))"
    and "rag_search w search_query kb ''naive'' pid = Inr r" and "answer r = Some []"
  shows "test_pipeline_search w pid (Some kb) =
           ([Print (txt_testing_search pid), Search search_query kb ''naive'' pid,
             Warning txt_search_empty], Inr False)
       \<and> \<not> list_ex is_Error (fst (test_pipeline_search w pid (Some kb)))
       \<and> (\<forall>emb llm light pipes kbs.
            pid = ''raganything'' \<and>
            snd (check_embedding_service w) = Inr emb \<and>
            snd (check_llm_service w) = Inr llm \<and>
            snd (check_rag_anything_availability w) = Inr True \<and>
            snd (check_lightrag_availability w) = Inr light \<and>
            snd (check_pipelines w) = Inr pipes \<and>
            snd (check_existing_knowledge_bases w) = Inr (kb # kbs) \<longrightarrow>
            snd (main w) = Inr ()
          \<and> (\<exists>pre. fst (main w) =
                pre @ [Header txt_search_header, Print (txt_testing_search pid),
                       Search search_query kb ''naive'' pid, Warning txt_search_empty]))"
proof -
  have loaded: "import_rag_tool w = None" "import_factory w = None"
    using assms(1) search_step_aborted(1) [of w pid "Some kb"] by fastforce+
  have step: "test_pipeline_search w pid (Some kb) =
           ([Print (txt_testing_search pid), Search search_query kb ''naive'' pid,
             Warning txt_search_empty], Inr False)"
    unfolding search_step_eq [OF loaded] assms(2) by (simp add: assms(3))
  have quiet: "\<not> list_ex is_Error (fst (test_pipeline_search w pid (Some kb)))"
    unfolding step by simp
  have run: "snd (main w) = Inr ()
          \<and> (\<exists>pre. fst (main w) =
                pre @ [Header txt_search_header, Print (txt_testing_search pid),
                       Search search_query kb ''naive'' pid, Warning txt_search_empty])"
    if c: "pid = ''raganything'' \<and>
            snd (check_embedding_service w) = Inr emb \<and>
            snd (check_llm_service w) = Inr llm \<and>
            snd (check_rag_anything_availability w) = Inr True \<and>
            snd (check_lightrag_availability w) = Inr light \<and>
            snd (check_pipelines w) = Inr pipes \<and>
            snd (check_existing_knowledge_bases w) = Inr (kb # kbs)"
    for emb llm light pipes kbs
  proof -
    from c have r: "snd (check_embedding_service w) = Inr emb"
      "snd (check_llm_service w) = Inr llm"
      "snd (check_rag_anything_availability w) = Inr True"
      "snd (check_lightrag_availability w) = Inr light"
      "snd (check_pipelines w) = Inr pipes"
      "snd (check_existing_knowledge_bases w) = Inr (kb # kbs)"
      and pid: "pid = ''raganything''"
      by simp_all
    have "snd (main w) = Inr ()"
      unfolding main_complete(2) [OF r] using step pid by simp
    moreover have "\<exists>pre. fst (main w) =
                pre @ [Header txt_search_header, Print (txt_testing_search pid),
                       Search search_query kb ''naive'' pid, Warning txt_search_empty]"
      unfolding main_complete(1) [OF r] using step pid by simp
    ultimately show ?thesis
      by simp
  qed
  show ?thesis
    using step quiet run by blast
qed

theorem empty_answer_is_warning_witness:
  "Search search_query ''physics'' ''naive'' ''raganything''
     \<in> set (fst (test_pipeline_search (healthy\<lparr>import_rag_tool := None,
          rag_search := \<lambda>query kb mode provider. Inr \<lparr>answer = Some []\<rparr>\<rparr>)
          ''raganything'' (Some ''physics'')))
   \<and> test_pipeline_search (healthy\<lparr>import_rag_tool := None,
        rag_search := \<lambda>query kb mode provider. Inr \<lparr>answer = Some []\<rparr>\<rparr>)
        ''raganything'' (Some ''physics'') =
        ([Print (txt_testing_search ''raganything''),
          Search search_query ''physics'' ''naive'' ''raganything'',
          Warning txt_search_empty], Inr False)
   \<and> snd (main (healthy\<lparr>import_rag_tool := None,
        rag_search := \<lambda>query kb mode provider. Inr \<lparr>answer = Some []\<rparr>\<rparr>)) = Inr ()"
proof -
  let ?w = "healthy\<lparr>import_rag_tool := None,
      rag_search := \<lambda>query kb mode provider. Inr \<lparr>answer = Some []\<rparr>\<rparr>"
  have tool: "import_rag_tool ?w = None" and factory: "import_factory ?w = None"
    and res: "rag_search ?w search_query ''physics'' ''naive'' ''raganything'' =
                Inr \<lparr>answer = Some []\<rparr>"
    and ans: "answer \<lparr>answer = Some []\<rparr> = Some []"
    by (simp_all add: healthy_def)
  have issued: "Search search_query ''physics'' ''naive'' ''raganything''
     \<in> set (fst (test_pipeline_search ?w ''raganything'' (Some ''physics'')))"
    unfolding search_step_eq [OF tool factory] res by simp
  note t = empty_answer_is_warning [OF issued res ans]
  note checks = search_variant_checks
    [where t = None and f = "\<lambda>query kb mode provider. Inr \<lparr>answer = Some []\<rparr>"]
  have "snd (main ?w) = Inr ()"
    using t checks by blast
  then show ?thesis
    using t issued by simp
qed

text \<open>
  Claim C10. The filter on \<^verbatim>\<open>rag_storage\<close> of the live search step applies only when no
  knowledge-base name is supplied. With a name the step does not read the knowledge-base
  directory at all (its outcome is the same whatever the directory holds) and its search
  call goes to the named knowledge base; without a name it takes the first directory that
  has \<^verbatim>\<open>rag_storage\<close>. Since \<^verbatim>\<open>main\<close> supplies the first name of the scan's list, for which
  one marker of the three is enough, the search can be issued against a knowledge base
  without \<^verbatim>\<open>rag_storage\<close>: in the concrete run the scan returns \<^verbatim>\<open>physics\<close> first, which has
  \<^verbatim>\<open>content_list\<close> only, and the search call of the run goes to it, while the step on its
  own would have chosen \<^verbatim>\<open>algebra\<close>.
\<close>

theorem named_kb_skips_rag_storage_filter:
  "test_pipeline_search (w\<lparr>kb_base_exists := b, kb_base_iterdir := l\<rparr>) pid (Some kb) =
     test_pipeline_search w pid (Some kb)
   \<and> find_kb w (Some kb) = returns (Some kb)
   \<and> search_calls (fst (test_pipeline_search w pid (Some kb))) =
       (if import_rag_tool w = None \<and> import_factory w = None
        then [Search search_query kb ''naive'' pid] else [])
   \<and> snd (find_kb w None) =
       (if kb_base_exists w
        then (case kb_base_iterdir w of
                Inl e \<Rightarrow> Inl e
              | Inr entries \<Rightarrow>
                  Inr (case filter (\<lambda>d. is_dir d \<and> has_rag_storage d) entries of
                         [] \<Rightarrow> None
                       | d # ds \<Rightarrow> Some (d_name d)))
        else Inr None)
   \<and> (\<forall>entries. kb_base_exists w \<and> kb_base_iterdir w = Inr entries \<longrightarrow>
         snd (check_existing_knowledge_bases w) =
           Inr [d_name d. d \<leftarrow> entries,
                is_dir d \<and> (has_rag_storage d \<or> has_content_list d \<or> has_numbered_items d)])
   \<and> (\<forall>emb llm rag light pipes kbs.
         snd (check_embedding_service w) = Inr emb \<and>
         snd (check_llm_service w) = Inr llm \<and>
         snd (check_rag_anything_availability w) = Inr rag \<and>
         snd (check_lightrag_availability w) = Inr light \<and>
         snd (check_pipelines w) = Inr pipes \<and>
         snd (check_existing_knowledge_bases w) = Inr kbs \<longrightarrow>
         search_calls (fst (main w)) =
           (if kbs \<noteq> [] \<and> import_raganything w = None \<and> import_rag_tool w = None
            then [Search search_query (hd kbs) ''naive'' ''raganything''] else []))
   \<and> kb_base_iterdir healthy =
       Inr [\<lparr>d_name = ''notes.txt'', is_dir = False, has_rag_storage = False,
             has_content_list = False, has_numbered_items = False\<rparr>,
            \<lparr>d_name = ''drafts'', is_dir = True, has_rag_storage = False,
             has_content_list = False, has_numbered_items = False\<rparr>,
            \<lparr>d_name = ''physics'', is_dir = True, has_rag_storage = False,
             has_content_list = True, has_numbered_items = False\<rparr>,
            \<lparr>d_name = ''algebra'', is_dir = True, has_rag_storage = True,
             has_content_list = False, has_numbered_items = True\<rparr>]
   \<and> snd (check_existing_knowledge_bases healthy) = Inr [''physics'', ''algebra'']
   \<and> search_calls (fst (main healthy)) =
       [Search search_query ''physics'' ''naive'' ''raganything'']
   \<and> snd (find_kb healthy None) = Inr (Some ''algebra'')"
proof (intro conjI allI impI)
  fix entries
  assume "kb_base_exists w \<and> kb_base_iterdir w = Inr entries"
  then have "snd (check_existing_knowledge_bases w) =
      Inr [d_name d. d \<leftarrow> entries, is_dir d \<and> kb_status d \<noteq> []]"
    using scan_result [of w entries] by simp
  then show "snd (check_existing_knowledge_bases w) =
           Inr [d_name d. d \<leftarrow> entries,
                is_dir d \<and> (has_rag_storage d \<or> has_content_list d \<or> has_numbered_items d)]"
    by (simp add: kb_status_empty)
next
  fix emb llm rag light pipes kbs
  assume "snd (check_embedding_service w) = Inr emb \<and>
         snd (check_llm_service w) = Inr llm \<and>
         snd (check_rag_anything_availability w) = Inr rag \<and>
         snd (check_lightrag_availability w) = Inr light \<and>
         snd (check_pipelines w) = Inr pipes \<and>
         snd (check_existing_knowledge_bases w) = Inr kbs"
  then show "search_calls (fst (main w)) =
           (if kbs \<noteq> [] \<and> import_raganything w = None \<and> import_rag_tool w = None
            then [Search search_query (hd kbs) ''naive'' ''raganything''] else [])"
    using main_search_calls [of w emb llm rag light pipes kbs] by blast
next
  show "test_pipeline_search (w\<lparr>kb_base_exists := b, kb_base_iterdir := l\<rparr>) pid (Some kb) =
     test_pipeline_search w pid (Some kb)"
    by (simp add: test_pipeline_search_def find_kb_def cong: option.case_cong)
  show "find_kb w (Some kb) = returns (Some kb)"
    by (simp add: find_kb_def)
  show "search_calls (fst (test_pipeline_search w pid (Some kb))) =
       (if import_rag_tool w = None \<and> import_factory w = None
        then [Search search_query kb ''naive'' pid] else [])"
    by (rule search_step_calls)
  show filter: "snd (find_kb w None) =
       (if kb_base_exists w
        then (case kb_base_iterdir w of
                Inl e \<Rightarrow> Inl e
              | Inr entries \<Rightarrow>
                  Inr (case filter (\<lambda>d. is_dir d \<and> has_rag_storage d) entries of
                         [] \<Rightarrow> None
                       | d # ds \<Rightarrow> Some (d_name d)))
        else Inr None)" for w
  proof -
    have names: "[d_name d. d \<leftarrow> entries, is_dir d \<and> has_rag_storage d] =
        map d_name (filter (\<lambda>d. is_dir d \<and> has_rag_storage d) entries)" for entries
      by (induction entries) simp_all
    show ?thesis
      unfolding find_kb_def names
      by (simp add: run_simps split: sum.splits list.splits)
  qed
  show "kb_base_iterdir healthy =
       Inr [\<lparr>d_name = ''notes.txt'', is_dir = False, has_rag_storage = False,
             has_content_list = False, has_numbered_items = False\<rparr>,
            \<lparr>d_name = ''drafts'', is_dir = True, has_rag_storage = False,
             has_content_list = False, has_numbered_items = False\<rparr>,
            \<lparr>d_name = ''physics'', is_dir = True, has_rag_storage = False,
             has_content_list = True, has_numbered_items = False\<rparr>,
            \<lparr>d_name = ''algebra'', is_dir = True, has_rag_storage = True,
             has_content_list = False, has_numbered_items = True\<rparr>]"
    by (simp add: healthy_def)
  show "snd (check_existing_knowledge_bases healthy) = Inr [''physics'', ''algebra'']"
    by (rule healthy_checks(6))
  show "search_calls (fst (main healthy)) =
       [Search search_query ''physics'' ''naive'' ''raganything'']"
    unfolding main_search_calls [OF healthy_checks] by (simp add: healthy_def)
  show "snd (find_kb healthy None) = Inr (Some ''algebra'')"
    unfolding filter by (simp add: healthy_def)
qed

theorem named_kb_skips_rag_storage_filter_witness:
  "kb_base_exists healthy
   \<and> snd (check_existing_knowledge_bases healthy) = Inr [''physics'', ''algebra'']
   \<and> search_calls (fst (main healthy)) =
       [Search search_query ''physics'' ''naive'' ''raganything'']
   \<and> test_pipeline_search (healthy\<lparr>kb_base_exists := False, kb_base_iterdir := Inr []\<rparr>)
        ''raganything'' (Some ''physics'') =
       test_pipeline_search healthy ''raganything'' (Some ''physics'')
   \<and> snd (find_kb healthy None) = Inr (Some ''algebra'')"
proof -
  note t = named_kb_skips_rag_storage_filter
    [where w = healthy and b = False and l = "Inr []" and pid = "''raganything''"
       and kb = "''physics''"]
  have root: "kb_base_exists healthy"
    by (simp add: healthy_def)
  have fields: "import_raganything healthy = None" "import_rag_tool healthy = None"
    by (simp_all add: healthy_def)
  have calls: "search_calls (fst (main healthy)) =
       (if [''physics'', ''algebra''] \<noteq> [] \<and> import_raganything healthy = None
           \<and> import_rag_tool healthy = None
        then [Search search_query (hd [''physics'', ''algebra'']) ''naive'' ''raganything'']
        else [])"
    using t healthy_checks by blast
  show ?thesis
    using t root calls fields by simp
qed

subsection \<open>Failures of external calls\<close>

text \<open>
  Claim C1 has every failure of an external call caught where it happens, so that no
  exception leaves \<^verbatim>\<open>main\<close>. The script does wrap the service checks, the construction of
  each pipeline and the search call in handlers: a failing embedding client is reported
  and the run ends normally (the last run below). But other external calls stand outside
  every \<^verbatim>\<open>try\<close>. When the knowledge-base directory exists and cannot be listed, the
  exception of \<^verbatim>\<open>iterdir\<close> leaves the scan and \<^verbatim>\<open>main\<close>, after seven headers and before the
  summary. The same happens when the pipeline registry cannot be listed or imported, when
  the search tool cannot be imported, and when importing \<^verbatim>\<open>raganything\<close> raises something
  other than an import error, which is all that the library checks catch.
\<close>

theorem uncaught_failures_escape:
  "snd (main (healthy\<lparr>kb_base_iterdir := Inl (OtherException ''[Errno 13] Permission denied'')\<rparr>))
     = Inl (OtherException ''[Errno 13] Permission denied'')
   \<and> header_texts (fst (main
         (healthy\<lparr>kb_base_iterdir := Inl (OtherException ''[Errno 13] Permission denied'')\<rparr>)))
     = take 7 header_order
   \<and> snd (main (healthy\<lparr>list_pipelines := Inl (OtherException ''registry unavailable'')\<rparr>))
     = Inl (OtherException ''registry unavailable'')
   \<and> snd (main (healthy\<lparr>import_factory := Some (ImportError ''No module named llama_index'')\<rparr>))
     = Inl (ImportError ''No module named llama_index'')
   \<and> snd (main (healthy\<lparr>import_rag_tool := Some (ImportError ''No module named lightrag'')\<rparr>))
     = Inl (ImportError ''No module named lightrag'')
   \<and> snd (main (healthy\<lparr>import_raganything := Some (OtherException ''invalid configuration'')\<rparr>))
     = Inl (OtherException ''invalid configuration'')
   \<and> snd (main (healthy\<lparr>get_embedding_client := Inl (OtherException ''no API key'')\<rparr>))
     = Inr ()"
proof (intro conjI)
  show "snd (main (healthy\<lparr>kb_base_iterdir := Inl (OtherException ''[Errno 13] Permission denied'')\<rparr>))
     = Inl (OtherException ''[Errno 13] Permission denied'')"
    by (simp add: main_result snd_embedding snd_llm snd_raganything snd_lightrag
        snd_check_pipelines snd_then_run snd_check_pipeline snd_kbs healthy_def)
  show "header_texts (fst (main
         (healthy\<lparr>kb_base_iterdir := Inl (OtherException ''[Errno 13] Permission denied'')\<rparr>)))
     = take 7 header_order"
    by (simp add: main_aborted_headers header_order_def snd_embedding snd_llm snd_raganything
        snd_lightrag snd_check_pipelines snd_then_run snd_check_pipeline snd_kbs healthy_def)
  show "snd (main (healthy\<lparr>list_pipelines := Inl (OtherException ''registry unavailable'')\<rparr>))
     = Inl (OtherException ''registry unavailable'')"
    by (simp add: main_result snd_embedding snd_llm snd_raganything snd_lightrag
        snd_check_pipelines healthy_def)
  show "snd (main (healthy\<lparr>import_factory := Some (ImportError ''No module named llama_index'')\<rparr>))
     = Inl (ImportError ''No module named llama_index'')"
    by (simp add: main_result snd_embedding snd_llm snd_raganything snd_lightrag
        snd_check_pipelines healthy_def)
  show "snd (main (healthy\<lparr>import_rag_tool := Some (ImportError ''No module named lightrag'')\<rparr>))
     = Inl (ImportError ''No module named lightrag'')"
    by (simp add: main_result snd_embedding snd_llm snd_raganything snd_lightrag
        snd_check_pipelines snd_then_run snd_check_pipeline snd_kbs kb_status_def
        snd_search_step healthy_def)
  show "snd (main (healthy\<lparr>import_raganything := Some (OtherException ''invalid configuration'')\<rparr>))
     = Inl (OtherException ''invalid configuration'')"
    by (simp add: main_result snd_embedding snd_llm snd_raganything healthy_def)
  show "snd (main (healthy\<lparr>get_embedding_client := Inl (OtherException ''no API key'')\<rparr>))
     = Inr ()"
    by (simp add: main_result snd_embedding snd_llm snd_raganything snd_lightrag
        snd_check_pipelines snd_then_run snd_check_pipeline snd_kbs kb_status_def
        snd_search_step search_query_def healthy_def)
qed

end
